theory Spec2Isabelle
  imports Complex_Main "HOL-Library.AList"
begin

section \<open>Strings and the platform functions the source calls\<close>

text \<open>
  A JavaScript string is modelled by \<^typ>\<open>string\<close>, the list of the bytes of its UTF-8
  form. Concatenation, equality, \<open>startsWith\<close> and \<open>includes\<close> of an ASCII pattern read
  the same on the bytes as on the UTF-16 code units. \<open>length\<close> counts bytes: it is the
  \<open>.length\<close> of the source on ASCII strings, and the only \<open>.length\<close> the model reads
  (the padding of \<open>base64UrlDecode\<close>) does not change a result.

  A value that may be \<open>undefined\<close> or \<open>null\<close> is an \<open>option\<close>. A string is truthy
  when it is present and not empty, which is what \<open>if (x)\<close>, \<open>x ? a : b\<close>, \<open>!x\<close> and
  \<open>x || y\<close> test in the source.
\<close>

definition truthy :: "string option \<Rightarrow> bool" where
  "truthy v = (case v of None \<Rightarrow> False | Some s \<Rightarrow> s \<noteq> [])"

text \<open>\<open>a || b\<close> on possibly absent strings: \<open>a\<close> when it is truthy, else \<open>b\<close>.\<close>

definition orElse :: "string option \<Rightarrow> string option \<Rightarrow> string option" where
  "orElse a b = (if truthy a then a else b)"

definition asciiUpper :: string where
  "asciiUpper = ''ABCDEFGHIJKLMNOPQRSTUVWXYZ''"

definition asciiLower :: string where
  "asciiLower = ''abcdefghijklmnopqrstuvwxyz''"

text \<open>
  \<open>String.prototype.toLowerCase\<close>: the letters A to Z are mapped to a to z and every
  other byte is kept. The source compares a lowered string only with the ASCII constants
  \<open>multipart/\<close>, \<open>text/html\<close>, \<open>text/plain\<close>, \<open>html\<close> and the lowered header names;
  no character outside ASCII lowers to a string of ASCII letters that occurs in them, so the
  comparisons of the model are those of the source.
\<close>

definition lowerChar :: "char \<Rightarrow> char" where
  "lowerChar c = (case map_of (zip asciiUpper asciiLower) c of Some l \<Rightarrow> l | None \<Rightarrow> c)"

definition toLowerCase :: "string \<Rightarrow> string" where
  "toLowerCase s = map lowerChar s"

definition startsWith :: "string \<Rightarrow> string \<Rightarrow> bool" where
  "startsWith s p = (take (length p) s = p)"

definition endsWith :: "string \<Rightarrow> string \<Rightarrow> bool" where
  "endsWith s p = (length p \<le> length s \<and> drop (length s - length p) s = p)"

fun includes_str :: "string \<Rightarrow> string \<Rightarrow> bool" where
  "includes_str [] p = (p = [])"
| "includes_str (c # cs) p = (startsWith (c # cs) p \<or> includes_str cs p)"

text \<open>\<open>Array.prototype.join\<close>.\<close>

fun join :: "string \<Rightarrow> string list \<Rightarrow> string" where
  "join sep [] = []"
| "join sep [x] = x"
| "join sep (x # y # ys) = x @ sep @ join sep (y # ys)"

definition CRLF :: string where
  "CRLF = [CHR 0x0D, CHR 0x0A]"

subsection \<open>Buffer.from(s, "base64")\<close>

text \<open>
  The decoder of the platform (Node's \<open>Buffer\<close>) never throws on a string. It accepts the
  standard and the URL-safe alphabet, skips every character outside them, and stops at the
  first \<open>=\<close>. Four sextets give three bytes; a trailing group of two sextets gives one byte,
  of three sextets two bytes, and a single trailing sextet gives none.
\<close>

definition base64Alphabet :: string where
  "base64Alphabet = ''ABCDEFGHIJKLMNOPQRSTUVWXYZabcdefghijklmnopqrstuvwxyz0123456789+/''"

fun indexOf :: "char \<Rightarrow> string \<Rightarrow> nat option" where
  "indexOf c [] = None"
| "indexOf c (x # xs) = (if c = x then Some 0 else map_option Suc (indexOf c xs))"

definition unbase64 :: "char \<Rightarrow> nat option" where
  "unbase64 c =
     (if c = CHR ''-'' then Some 62
      else if c = CHR ''_'' then Some 63
      else indexOf c base64Alphabet)"

fun sextetsToBytes :: "nat list \<Rightarrow> nat list" where
  "sextetsToBytes (a # b # c # d # rest) =
     [(a mod 64) * 4 + (b mod 64) div 16,
      (b mod 16) * 16 + (c mod 64) div 4,
      (c mod 4) * 64 + d mod 64]
     @ sextetsToBytes rest"
| "sextetsToBytes [a, b, c] =
     [(a mod 64) * 4 + (b mod 64) div 16, (b mod 16) * 16 + (c mod 64) div 4]"
| "sextetsToBytes [a, b] = [(a mod 64) * 4 + (b mod 64) div 16]"
| "sextetsToBytes [a] = []"
| "sextetsToBytes [] = []"

definition bufferFromBase64 :: "string \<Rightarrow> nat list" where
  "bufferFromBase64 s =
     sextetsToBytes (List.map_filter unbase64 (takeWhile (\<lambda>c. c \<noteq> CHR ''='') s))"

subsection \<open>buffer.toString("utf8")\<close>

text \<open>
  The UTF-8 decoder of the platform never throws either: every maximal ill-formed part of
  the input becomes one U+FFFD. The result is given in its UTF-8 form, so a well-formed
  sequence is copied and an ill-formed part becomes the three bytes EF BF BD.
  \<open>utf8Decode need pend lo hi bs\<close> has \<open>need\<close> continuation bytes to go for the sequence
  \<open>pend\<close> read so far, the next of them in the range \<open>lo\<close> to \<open>hi\<close>.
\<close>

definition replacementChar :: "nat list" where
  "replacementChar = [0xEF, 0xBF, 0xBD]"

function utf8Decode :: "nat \<Rightarrow> nat list \<Rightarrow> nat \<Rightarrow> nat \<Rightarrow> nat list \<Rightarrow> nat list" where
  "utf8Decode need pend lo hi [] = (if need = 0 then [] else replacementChar)"
| "utf8Decode need pend lo hi (b # bs) =
     (if need = 0 then
        (if b \<le> 0x7F then b # utf8Decode 0 [] 0x80 0xBF bs
         else if 0xC2 \<le> b \<and> b \<le> 0xDF then utf8Decode 1 [b] 0x80 0xBF bs
         else if 0xE0 \<le> b \<and> b \<le> 0xEF then
           utf8Decode 2 [b] (if b = 0xE0 then 0xA0 else 0x80) (if b = 0xED then 0x9F else 0xBF) bs
         else if 0xF0 \<le> b \<and> b \<le> 0xF4 then
           utf8Decode 3 [b] (if b = 0xF0 then 0x90 else 0x80) (if b = 0xF4 then 0x8F else 0xBF) bs
         else replacementChar @ utf8Decode 0 [] 0x80 0xBF bs)
      else if lo \<le> b \<and> b \<le> hi then
        (if need = 1 then pend @ [b] @ utf8Decode 0 [] 0x80 0xBF bs
         else utf8Decode (need - 1) (pend @ [b]) 0x80 0xBF bs)
      else replacementChar @ utf8Decode 0 [] 0x80 0xBF (b # bs))"
  by pat_completeness auto
termination
  by (relation "measure (\<lambda>(need, pend, lo, hi, bs). 2 * length bs + (if need = 0 then 0 else 1))")
     auto

definition utf8ToString :: "nat list \<Rightarrow> string" where
  "utf8ToString bs = map char_of (utf8Decode 0 [] 0x80 0xBF bs)"

section \<open>emailExtractor.ts\<close>

record GmailHeader =
  name :: string
  value' :: string

record GmailBody =
  size' :: "nat option"
  data :: "string option"

text \<open>
  \<open>GmailPart\<close>: \<open>headers\<close> and \<open>parts\<close> are read only as \<open>headers || []\<close> and
  \<open>parts || []\<close>, so an absent list is the empty list.
\<close>

datatype GmailPart =
  GmailPart (mimeType: "string option") (filename: "string option")
    (headers: "GmailHeader list") (body: "GmailBody option") (parts: "GmailPart list")

text \<open>
  \<open>GmailMessage\<close>, with the two fields \<open>message\<close> and \<open>messageId\<close> that processor.ts
  reads through \<open>(record as any)\<close>. \<open>id'\<close> is the field \<open>id\<close>, \<open>msg_data\<close> the envelope
  \<open>data\<close>, \<open>airbyte_data\<close> the envelope \<open>_airbyte_data\<close>.
\<close>

datatype GmailMessage =
  GmailMessage (id': "string option") (msg_data: "GmailMessage option")
    (airbyte_data: "GmailMessage option") (threadId: "string option")
    (payload: "GmailPart option") (snippet: "string option")
    (message: "GmailMessage option") (msg_messageId: "string option")

text \<open>
  \<open>base64UrlDecode\<close>: \<open>-\<close> becomes \<open>+\<close>, \<open>_\<close> becomes \<open>/\<close>, the padding is appended, and
  the two platform decoders run. No step of it throws.
\<close>

definition replaceChar :: "char \<Rightarrow> char \<Rightarrow> string \<Rightarrow> string" where
  "replaceChar x y s = map (\<lambda>c. if c = x then y else c) s"

definition base64UrlDecode :: "string \<Rightarrow> string" where
  "base64UrlDecode d =
     (let padded = replaceChar (CHR ''_'') (CHR ''/'') (replaceChar (CHR ''-'') (CHR ''+'') d)
                   @ replicate ((4 - length d mod 4) mod 4) (CHR ''='')
      in utf8ToString (bufferFromBase64 padded))"

definition findHeader :: "GmailHeader list \<Rightarrow> string \<Rightarrow> string option" where
  "findHeader hs n =
     map_option value' (List.find (\<lambda>hh. toLowerCase (name hh) = toLowerCase n) hs)"

text \<open>\<open>part.body?.data\<close>.\<close>

definition bodyData :: "GmailPart \<Rightarrow> string option" where
  "bodyData p = (case body p of None \<Rightarrow> None | Some b \<Rightarrow> data b)"

text \<open>\<open>part.mimeType?.toLowerCase().startsWith("multipart/")\<close>, as \<open>!isMultipart\<close> reads it.\<close>

definition isMultipart :: "GmailPart \<Rightarrow> bool" where
  "isMultipart p =
     (case mimeType p of None \<Rightarrow> False | Some m \<Rightarrow> startsWith (toLowerCase m) ''multipart/'')"

text \<open>The callback of \<open>parts.find\<close>: \<open>(p.mimeType || "").toLowerCase() === t && p.body?.data\<close>.\<close>

definition childOfType :: "string \<Rightarrow> GmailPart \<Rightarrow> bool" where
  "childOfType t p =
     (toLowerCase (case orElse (mimeType p) (Some []) of None \<Rightarrow> [] | Some m \<Rightarrow> m) = t
      \<and> truthy (bodyData p))"

record FoundPart =
  mime :: string
  found_data :: string

text \<open>
  \<open>findPart\<close>, and \<open>findPartLoop\<close> for its closing \<open>for (const p of parts)\<close> loop, which
  returns the first result that is not null.
\<close>

fun findPart :: "GmailPart option \<Rightarrow> bool \<Rightarrow> FoundPart option"
  and findPartLoop :: "GmailPart list \<Rightarrow> bool \<Rightarrow> FoundPart option" where
  "findPart None preferHtml = None"
| "findPart (Some (GmailPart mt fn hs b ps)) preferHtml =
     (let part = GmailPart mt fn hs b ps in
      if \<not> isMultipart part \<and> truthy (bodyData part) then
        Some \<lparr>mime = the (orElse (mimeType part) (Some ''text/plain'')),
              found_data = the (bodyData part)\<rparr>
      else
        (case (if preferHtml then List.find (childOfType ''text/html'') ps else None) of
           Some html \<Rightarrow> Some \<lparr>mime = ''text/html'', found_data = the (bodyData html)\<rparr>
         | None \<Rightarrow>
            (case List.find (childOfType ''text/plain'') ps of
               Some plain \<Rightarrow> Some \<lparr>mime = ''text/plain'', found_data = the (bodyData plain)\<rparr>
             | None \<Rightarrow> findPartLoop ps preferHtml)))"
| "findPartLoop [] preferHtml = None"
| "findPartLoop (p # ps) preferHtml =
     (case findPart (Some p) preferHtml of
        Some found \<Rightarrow> Some found
      | None \<Rightarrow> findPartLoop ps preferHtml)"

datatype BodyMime = TextHtml | TextPlain

definition bodyMimeString :: "BodyMime \<Rightarrow> string" where
  "bodyMimeString m = (case m of TextHtml \<Rightarrow> ''text/html'' | TextPlain \<Rightarrow> ''text/plain'')"

record ExtractedEmail =
  messageId :: string
  subject :: "string option"
  from' :: "string option"
  to :: "string option"
  cc :: "string option"
  bcc :: "string option"
  date :: "string option"
  bodyMime :: BodyMime
  email_body :: string
  email_snippet :: "string option"

text \<open>
  What the source throws, and what the run can be rejected with: an \<open>Error\<close> with its
  message, a ReferenceError with the name that is not in scope, a failure of the store.
\<close>

datatype S3Failure = S3Failure (httpStatusCode: "nat option") (errName: string)

datatype JsError =
  Error string
  | ReferenceError string
  | ServiceError S3Failure

text \<open>\<open>msg._airbyte_data ?? msg.data ?? msg\<close>.\<close>

definition unwrap :: "GmailMessage \<Rightarrow> GmailMessage" where
  "unwrap msg =
     (case airbyte_data msg of
        Some e \<Rightarrow> e
      | None \<Rightarrow> (case msg_data msg of Some e \<Rightarrow> e | None \<Rightarrow> msg))"

definition extractEmail :: "GmailMessage \<Rightarrow> JsError + ExtractedEmail" where
  "extractEmail msg =
     (let core = unwrap msg in
      if \<not> truthy (id' core) then Inl (Error ''Missing message id'')
      else
        (let hs = (case payload core of None \<Rightarrow> [] | Some p \<Rightarrow> headers p) in
         case findPart (payload core) True of
           None \<Rightarrow> Inl (Error ''No body found'')
         | Some part \<Rightarrow>
             Inr \<lparr>messageId = the (id' core),
                  subject = findHeader hs ''Subject'',
                  from' = findHeader hs ''From'',
                  to = findHeader hs ''To'',
                  cc = findHeader hs ''Cc'',
                  bcc = findHeader hs ''Bcc'',
                  date = findHeader hs ''Date'',
                  bodyMime = (if includes_str (toLowerCase (mime part)) ''html''
                              then TextHtml else TextPlain),
                  email_body = base64UrlDecode (found_data part),
                  email_snippet = snippet msg\<rparr>))"

text \<open>
  \<open>toEml\<close>: the array of header lines or null, \<open>.filter(Boolean)\<close>, \<open>.join("\r\n")\<close>,
  then the blank line and the body.
\<close>

definition dquote :: string where
  "dquote = [CHR 0x22]"

definition headerLine :: "string \<Rightarrow> string option \<Rightarrow> string option" where
  "headerLine n v = (if truthy v then Some (n @ '': '' @ the v) else None)"

definition filterBoolean :: "string option list \<Rightarrow> string list" where
  "filterBoolean xs = map the (filter truthy xs)"

definition toEml :: "ExtractedEmail \<Rightarrow> string" where
  "toEml email =
     (let hdrs = join CRLF (filterBoolean
        [headerLine ''From'' (from' email),
         headerLine ''To'' (to email),
         headerLine ''Cc'' (cc email),
         headerLine ''Bcc'' (bcc email),
         headerLine ''Subject'' (subject email),
         headerLine ''Date'' (date email),
         Some (''Message-ID: <'' @ messageId email @ ''@gmail>''),
         Some ''MIME-Version: 1.0'',
         Some (''Content-Type: '' @ bodyMimeString (bodyMime email)
               @ ''; charset='' @ dquote @ ''UTF-8'' @ dquote)])
      in hdrs @ CRLF @ CRLF @ email_body email)"

section \<open>The object store\<close>

text \<open>
  The S3 client is the store of one bucket (every command of a run names
  \<open>config.bucket\<close>): the objects in listing order, the commands sent so far, the
  commands the service refuses, each with the failure it answers, and the number of keys
  on a page of a listing. \<open>s3.send\<close> appends the command to \<open>sent\<close> and either
  returns or throws the failure. The continuation token of a listing is the position the
  next page starts at.
\<close>

datatype S3Command =
  ListObjectsV2Command string "nat option"
  | GetObjectCommand string
  | HeadObjectCommand string
  | PutObjectCommand string string string

record S3Client =
  objects :: "(string \<times> string) list"
  faults :: "S3Command \<Rightarrow> S3Failure option"
  sent :: "S3Command list"
  maxKeys :: nat

definition record_sent :: "S3Command \<Rightarrow> S3Client \<Rightarrow> S3Client" where
  "record_sent c s = s\<lparr>sent := sent s @ [c]\<rparr>"

definition sendHeadObject :: "S3Client \<Rightarrow> string \<Rightarrow> (S3Failure + unit) \<times> S3Client" where
  "sendHeadObject s k =
     (let s' = record_sent (HeadObjectCommand k) s in
      case faults s (HeadObjectCommand k) of
        Some f \<Rightarrow> (Inl f, s')
      | None \<Rightarrow>
          (case map_of (objects s) k of
             Some v \<Rightarrow> (Inr (), s')
           | None \<Rightarrow> (Inl (S3Failure (Some 404) ''NotFound''), s')))"

definition sendPutObject ::
  "S3Client \<Rightarrow> string \<Rightarrow> string \<Rightarrow> string \<Rightarrow> (S3Failure + unit) \<times> S3Client" where
  "sendPutObject s k v contentType =
     (let s' = record_sent (PutObjectCommand k v contentType) s in
      case faults s (PutObjectCommand k v contentType) of
        Some f \<Rightarrow> (Inl f, s')
      | None \<Rightarrow> (Inr (), s'\<lparr>objects := AList.update k v (objects s)\<rparr>))"

definition sendGetObject :: "S3Client \<Rightarrow> string \<Rightarrow> (S3Failure + string) \<times> S3Client" where
  "sendGetObject s k =
     (let s' = record_sent (GetObjectCommand k) s in
      case faults s (GetObjectCommand k) of
        Some f \<Rightarrow> (Inl f, s')
      | None \<Rightarrow>
          (case map_of (objects s) k of
             Some v \<Rightarrow> (Inr v, s')
           | None \<Rightarrow> (Inl (S3Failure (Some 404) ''NoSuchKey''), s')))"

text \<open>
  A listing answers with one page of the keys under the prefix, at least one key long,
  and says whether keys remain and where the next page starts.
\<close>

record ListObjectsV2Output =
  contents :: "string list"
  isTruncated :: bool
  nextContinuationToken :: "nat option"

definition keysUnder :: "S3Client \<Rightarrow> string \<Rightarrow> string list" where
  "keysUnder s prefix = filter (\<lambda>k. startsWith k prefix) (map fst (objects s))"

definition pageStart :: "nat option \<Rightarrow> nat" where
  "pageStart token = (case token of None \<Rightarrow> 0 | Some n \<Rightarrow> n)"

definition sendListObjectsV2 ::
  "S3Client \<Rightarrow> string \<Rightarrow> nat option \<Rightarrow> (S3Failure + ListObjectsV2Output) \<times> S3Client" where
  "sendListObjectsV2 s prefix token =
     (let s' = record_sent (ListObjectsV2Command prefix token) s in
      case faults s (ListObjectsV2Command prefix token) of
        Some f \<Rightarrow> (Inl f, s')
      | None \<Rightarrow>
          (let next = pageStart token + max 1 (maxKeys s);
               more = next < length (keysUnder s prefix)
           in (Inr \<lparr>contents = take (max 1 (maxKeys s)) (drop (pageStart token) (keysUnder s prefix)),
                    isTruncated = more,
                    nextContinuationToken = (if more then Some next else None)\<rparr>, s')))"

section \<open>jsonlReader.ts\<close>

text \<open>
  \<open>listJsonlKeys\<close>: the do-while loop sends one listing per page, keeps the keys that
  end in \<open>.jsonl\<close>, whatever their case, and goes on while the page is truncated and names
  a continuation token.
\<close>

function listJsonlKeysLoop ::
  "S3Client \<Rightarrow> string \<Rightarrow> nat option \<Rightarrow> string list \<Rightarrow> (S3Failure + string list) \<times> S3Client" where
  "listJsonlKeysLoop s prefix token ks =
     (case sendListObjectsV2 s prefix token of
        (Inl f, s') \<Rightarrow> (Inl f, s')
      | (Inr res, s') \<Rightarrow>
          (let ks' = ks @ filter (\<lambda>k. k \<noteq> [] \<and> endsWith (toLowerCase k) ''.jsonl'') (contents res);
               continuationToken = (if isTruncated res then nextContinuationToken res else None)
           in case continuationToken of
                None \<Rightarrow> (Inr ks', s')
              | Some t \<Rightarrow> listJsonlKeysLoop s' prefix (Some t) ks'))"
  by pat_completeness auto
termination
proof (relation "measure (\<lambda>(s, prefix, token, ks). length (keysUnder s prefix) - pageStart token)")
  show "wf (measure (\<lambda>(s, prefix, token, ks). length (keysUnder s prefix) - pageStart token))"
    by simp
next
  fix s :: S3Client and prefix :: string and token :: "nat option" and ks :: "string list"
    and res' :: "S3Failure + ListObjectsV2Output" and s' :: S3Client
    and res :: ListObjectsV2Output and ks' :: "string list"
    and continuationToken :: "nat option" and t :: nat
  assume p: "(res', s') = sendListObjectsV2 s prefix token"
    and r: "res' = Inr res"
    and c: "continuationToken = (if isTruncated res then nextContinuationToken res else None)"
    and t: "continuationToken = Some t"
  have f: "faults s (ListObjectsV2Command prefix token) = None"
    using p r by (auto simp add: sendListObjectsV2_def Let_def split: option.splits)
  have s': "s' = record_sent (ListObjectsV2Command prefix token) s"
    using p r f by (simp add: sendListObjectsV2_def Let_def)
  have n: "t = pageStart token + max 1 (maxKeys s) \<and> t < length (keysUnder s prefix)"
    using p r f c t by (auto simp add: sendListObjectsV2_def Let_def split: if_splits)
  have k: "keysUnder s' prefix = keysUnder s prefix"
    by (simp add: s' keysUnder_def record_sent_def)
  have lt: "pageStart token < t"
    using n by (simp add: max_def)
  have ps: "pageStart (Some t) = t"
    by (simp add: pageStart_def)
  have "length (keysUnder s prefix) - t < length (keysUnder s prefix) - pageStart token"
    using n lt by linarith
  then show "((s', prefix, Some t, ks'), s, prefix, token, ks)
        \<in> measure (\<lambda>(s, prefix, token, ks). length (keysUnder s prefix) - pageStart token)"
    by (simp add: k ps)
qed

definition listJsonlKeys :: "S3Client \<Rightarrow> string \<Rightarrow> (S3Failure + string list) \<times> S3Client" where
  "listJsonlKeys s prefix = listJsonlKeysLoop s prefix None []"

text \<open>
  \<open>readline\<close> over the body: a line ends at LF, at CR, or at CR LF taken as one break
  (\<open>crlfDelay: Infinity\<close>); the text after the last break is a line when it is not empty.
\<close>

fun readlineLines :: "bool \<Rightarrow> string \<Rightarrow> string \<Rightarrow> string list" where
  "readlineLines sawReturn cur [] = (if cur = [] then [] else [cur])"
| "readlineLines sawReturn cur (c # cs) =
     (if c = CHR 0x0A \<and> sawReturn then readlineLines False cur cs
      else if c = CHR 0x0A \<or> c = CHR 0x0D then cur # readlineLines (c = CHR 0x0D) [] cs
      else readlineLines False (cur @ [c]) cs)"

text \<open>
  \<open>String.prototype.trim\<close> removes white space and line terminators from both ends:
  TAB, LF, VT, FF, CR, SP, and in their UTF-8 form U+00A0, U+1680, U+2000 to U+200A,
  U+2028, U+2029, U+202F, U+205F, U+3000 and U+FEFF.
\<close>

definition whiteSpace :: "string list" where
  "whiteSpace =
     [[CHR 0x09], [CHR 0x0A], [CHR 0x0B], [CHR 0x0C], [CHR 0x0D], [CHR 0x20],
      [CHR 0xC2, CHR 0xA0], [CHR 0xE1, CHR 0x9A, CHR 0x80],
      [CHR 0xE2, CHR 0x80, CHR 0x80], [CHR 0xE2, CHR 0x80, CHR 0x81],
      [CHR 0xE2, CHR 0x80, CHR 0x82], [CHR 0xE2, CHR 0x80, CHR 0x83],
      [CHR 0xE2, CHR 0x80, CHR 0x84], [CHR 0xE2, CHR 0x80, CHR 0x85],
      [CHR 0xE2, CHR 0x80, CHR 0x86], [CHR 0xE2, CHR 0x80, CHR 0x87],
      [CHR 0xE2, CHR 0x80, CHR 0x88], [CHR 0xE2, CHR 0x80, CHR 0x89],
      [CHR 0xE2, CHR 0x80, CHR 0x8A], [CHR 0xE2, CHR 0x80, CHR 0xA8],
      [CHR 0xE2, CHR 0x80, CHR 0xA9], [CHR 0xE2, CHR 0x80, CHR 0xAF],
      [CHR 0xE2, CHR 0x81, CHR 0x9F], [CHR 0xE3, CHR 0x80, CHR 0x80],
      [CHR 0xEF, CHR 0xBB, CHR 0xBF]]"

fun trimStartWith :: "string list \<Rightarrow> string \<Rightarrow> string" where
  "trimStartWith ws [] = []"
| "trimStartWith ws (c # cs) =
     (case List.find (\<lambda>w. w \<noteq> [] \<and> startsWith (c # cs) w) ws of
        Some w \<Rightarrow> trimStartWith ws (drop (length w - 1) cs)
      | None \<Rightarrow> c # cs)"

definition trim :: "string \<Rightarrow> string" where
  "trim s = rev (trimStartWith (map rev whiteSpace) (rev (trimStartWith whiteSpace s)))"

text \<open>
  What the generator does between two requests of its consumer: it yields a record, or it
  warns about a line that did not parse and goes on.
\<close>

datatype 'r StreamItem = Yield 'r | WarnFailedToParse string string

text \<open>
  The loop of \<open>readJsonlFromS3\<close> over the lines. \<open>JSON.parse\<close> is the parameter \<open>parse\<close>:
  it returns the record or throws, \<open>Inl\<close> holding the message of the error.
\<close>

fun readJsonlLines :: "(string \<Rightarrow> string + 'r) \<Rightarrow> string \<Rightarrow> string list \<Rightarrow> 'r StreamItem list" where
  "readJsonlLines parse k [] = []"
| "readJsonlLines parse k (line # rest) =
     (let trimmed = trim line in
      if trimmed = [] then readJsonlLines parse k rest
      else
        (case parse trimmed of
           Inr r \<Rightarrow> Yield r # readJsonlLines parse k rest
         | Inl msg \<Rightarrow> WarnFailedToParse k msg # readJsonlLines parse k rest))"

definition readJsonlFromS3 ::
  "(string \<Rightarrow> string + 'r) \<Rightarrow> S3Client \<Rightarrow> string \<Rightarrow> (S3Failure + 'r StreamItem list) \<times> S3Client" where
  "readJsonlFromS3 parse s k =
     (case sendGetObject s k of
        (Inl f, s') \<Rightarrow> (Inl f, s')
      | (Inr content, s') \<Rightarrow>
          (Inr (readJsonlLines parse k
                  (readlineLines False [] (utf8ToString (map of_char content)))), s'))"

section \<open>config.ts and processor.ts\<close>

record AppConfig =
  region :: string
  bucket :: string
  airbytePrefix :: string
  messagesPrefix :: string
  detailsPrefix :: string
  rawFilesPrefix :: string
  workspaceId :: string
  connectorId :: string

text \<open>
  A JavaScript \<open>number\<close> as far as \<open>limit\<close> needs it: a finite value, an infinity or NaN.
  \<open>index.ts\<close> sets \<open>limit\<close> to \<open>Number(v)\<close> of the text after \<open>--limit\<close>, which can be any
  of them.
\<close>

datatype JsNumber = Num rat | PosInfinity | NegInfinity | NaN

record ProcessorOptions =
  limit :: "JsNumber option"
  dryRun :: "bool option"

record Counters =
  processed :: nat
  created :: nat
  skipped :: nat
  failed :: nat

text \<open>\<open>counters.processed >= limit\<close>; a comparison with NaN is false.\<close>

definition reached :: "nat \<Rightarrow> JsNumber \<Rightarrow> bool" where
  "reached n l =
     (case l of
        Num q \<Rightarrow> q \<le> of_nat n
      | PosInfinity \<Rightarrow> False
      | NegInfinity \<Rightarrow> True
      | NaN \<Rightarrow> False)"

text \<open>
  The lines of the console. The preview line is kept without its \<open>size\<close>, the
  missing-id warning without the keys of the record.
\<close>

datatype ConsoleLine =
  LogFound nat string
  | LogReading string
  | WarnStream string string
  | WarnMissingId string
  | LogSkipping string
  | LogPreview string string string
  | LogWouldCreate string
  | LogCreated string

record RunState =
  counters :: Counters
  s3 :: S3Client
  console :: "ConsoleLine list"

definition say :: "ConsoleLine \<Rightarrow> RunState \<Rightarrow> RunState" where
  "say l st = st\<lparr>console := console st @ [l]\<rparr>"

definition count_processed :: "RunState \<Rightarrow> RunState" where
  "count_processed st = st\<lparr>counters := (counters st)\<lparr>processed := processed (counters st) + 1\<rparr>\<rparr>"

definition count_created :: "RunState \<Rightarrow> RunState" where
  "count_created st = st\<lparr>counters := (counters st)\<lparr>created := created (counters st) + 1\<rparr>\<rparr>"

definition count_skipped :: "RunState \<Rightarrow> RunState" where
  "count_skipped st = st\<lparr>counters := (counters st)\<lparr>skipped := skipped (counters st) + 1\<rparr>\<rparr>"

definition count_failed :: "RunState \<Rightarrow> RunState" where
  "count_failed st = st\<lparr>counters := (counters st)\<lparr>failed := failed (counters st) + 1\<rparr>\<rparr>"

text \<open>
  \<open>exists\<close>: true when the probe returns; false when it throws with status 404 or with
  the name \<open>NotFound\<close>; any other failure is thrown again.
\<close>

definition exists' :: "S3Client \<Rightarrow> string \<Rightarrow> (JsError + bool) \<times> S3Client" where
  "exists' s k =
     (case sendHeadObject s k of
        (Inr u, s') \<Rightarrow> (Inr True, s')
      | (Inl err, s') \<Rightarrow>
          (if httpStatusCode err = Some 404 then (Inr False, s')
           else if errName err = ''NotFound'' then (Inr False, s')
           else (Inl (ServiceError err), s')))"

text \<open>
  \<open>const msgId = record.id || record._airbyte_data?.id || record.data?.id ||
  record.message?.id || record.messageId || null\<close>.
\<close>

definition envelopeId :: "GmailMessage option \<Rightarrow> string option" where
  "envelopeId e = (case e of None \<Rightarrow> None | Some m \<Rightarrow> id' m)"

definition recordMsgId :: "GmailMessage \<Rightarrow> string option" where
  "recordMsgId r =
     orElse (id' r)
       (orElse (envelopeId (airbyte_data r))
          (orElse (envelopeId (msg_data r))
             (orElse (envelopeId (message r))
                (orElse (msg_messageId r) None))))"

definition targetKeyOf :: "AppConfig \<Rightarrow> string \<Rightarrow> string" where
  "targetKeyOf config msgId = rawFilesPrefix config @ workspaceId config @ ''/gmail/'' @ msgId @ ''.eml''"

text \<open>
  How the \<open>try\<close> block of one record ends: it runs to its end or to a \<open>continue\<close>, it
  returns from \<open>processMessages\<close>, or it throws.
\<close>

datatype TryResult = Completed RunState | Returned RunState | Thrown JsError RunState

definition tryBlock ::
  "AppConfig \<Rightarrow> JsNumber \<Rightarrow> bool \<Rightarrow> string \<Rightarrow> RunState \<Rightarrow> GmailMessage \<Rightarrow> TryResult" where
  "tryBlock config lmt dry k st r =
     (if reached (processed (counters st)) lmt then Returned st
      else
        (let st1 = count_processed st in
         case recordMsgId r of
           None \<Rightarrow> Completed (say (WarnMissingId k) (count_failed st1))
         | Some msgId \<Rightarrow>
             (let targetKey = targetKeyOf config msgId in
              case exists' (s3 st1) targetKey of
                (Inl err, s') \<Rightarrow> Thrown err (st1\<lparr>s3 := s'\<rparr>)
              | (Inr True, s') \<Rightarrow>
                  Completed (say (LogSkipping targetKey) (count_skipped (st1\<lparr>s3 := s'\<rparr>)))
              | (Inr False, s') \<Rightarrow>
                  (case extractEmail r of
                     Inl err \<Rightarrow> Thrown err (st1\<lparr>s3 := s'\<rparr>)
                   | Inr email \<Rightarrow>
                       (let eml = toEml email;
                            st2 = say (LogPreview (workspaceId config) (connectorId config) targetKey)
                                    (st1\<lparr>s3 := s'\<rparr>)
                        in if dry then Completed (say (LogWouldCreate targetKey) st2)
                           else
                             (case sendPutObject (s3 st2) targetKey eml ''message/rfc822'' of
                                (Inl f, s'') \<Rightarrow> Thrown (ServiceError f) (st2\<lparr>s3 := s''\<rparr>)
                              | (Inr u, s'') \<Rightarrow>
                                  Completed (say (LogCreated targetKey)
                                               (count_created (st2\<lparr>s3 := s''\<rparr>)))))))))"

text \<open>
  The \<open>catch\<close> clause adds one to \<open>failed\<close> and then builds the text of its warning from
  \<open>msgId\<close>. That name is declared by \<open>const\<close> inside the \<open>try\<close> block and is not in scope
  in the \<open>catch\<close> block, so reading it throws a ReferenceError before \<open>console.warn\<close> is
  called. Nothing catches that error: it leaves both loops and rejects the promise of
  \<open>processMessages\<close>.
\<close>

datatype StepOutcome = Continue RunState | Return RunState | Abort JsError RunState

definition catchClause :: "JsError \<Rightarrow> RunState \<Rightarrow> StepOutcome" where
  "catchClause err st = Abort (ReferenceError ''msgId'') (count_failed st)"

definition processRecord ::
  "AppConfig \<Rightarrow> JsNumber \<Rightarrow> bool \<Rightarrow> string \<Rightarrow> RunState \<Rightarrow> GmailMessage \<Rightarrow> StepOutcome" where
  "processRecord config lmt dry k st r =
     (case tryBlock config lmt dry k st r of
        Completed st' \<Rightarrow> Continue st'
      | Returned st' \<Rightarrow> Return st'
      | Thrown err st' \<Rightarrow> catchClause err st')"

text \<open>The \<open>for await\<close> loop over the stream of one file.\<close>

fun processStream ::
  "AppConfig \<Rightarrow> JsNumber \<Rightarrow> bool \<Rightarrow> string \<Rightarrow> RunState \<Rightarrow> GmailMessage StreamItem list
     \<Rightarrow> StepOutcome" where
  "processStream config lmt dry k st [] = Continue st"
| "processStream config lmt dry k st (WarnFailedToParse f msg # items) =
     processStream config lmt dry k (say (WarnStream f msg) st) items"
| "processStream config lmt dry k st (Yield r # items) =
     (case processRecord config lmt dry k st r of
        Continue st' \<Rightarrow> processStream config lmt dry k st' items
      | Return st' \<Rightarrow> Return st'
      | Abort err st' \<Rightarrow> Abort err st')"

text \<open>The \<open>for\<close> loop over the keys; a failing \<open>GetObject\<close> is outside every \<open>try\<close>.\<close>

fun processKeys ::
  "(string \<Rightarrow> string + GmailMessage) \<Rightarrow> AppConfig \<Rightarrow> JsNumber \<Rightarrow> bool \<Rightarrow> RunState
     \<Rightarrow> string list \<Rightarrow> StepOutcome" where
  "processKeys parse config lmt dry st [] = Continue st"
| "processKeys parse config lmt dry st (k # ks) =
     (let st1 = say (LogReading k) st in
      case readJsonlFromS3 parse (s3 st1) k of
        (Inl f, s') \<Rightarrow> Abort (ServiceError f) (st1\<lparr>s3 := s'\<rparr>)
      | (Inr items, s') \<Rightarrow>
          (case processStream config lmt dry k (st1\<lparr>s3 := s'\<rparr>) items of
             Continue st' \<Rightarrow> processKeys parse config lmt dry st' ks
           | Return st' \<Rightarrow> Return st'
           | Abort err st' \<Rightarrow> Abort err st'))"

text \<open>
  \<open>processMessages\<close>: the promise resolves with the counters of the final state, or is
  rejected with an error.
\<close>

datatype RunResult = Resolved RunState | Rejected JsError RunState

definition zeroCounters :: Counters where
  "zeroCounters = \<lparr>processed = 0, created = 0, skipped = 0, failed = 0\<rparr>"

definition processMessages ::
  "(string \<Rightarrow> string + GmailMessage) \<Rightarrow> S3Client \<Rightarrow> AppConfig \<Rightarrow> ProcessorOptions \<Rightarrow> RunResult" where
  "processMessages parse client config opts =
     (let lmt = (case limit opts of None \<Rightarrow> PosInfinity | Some l \<Rightarrow> l);
          dry = (case dryRun opts of None \<Rightarrow> False | Some d \<Rightarrow> d)
      in case listJsonlKeys client (detailsPrefix config) of
           (Inl f, s') \<Rightarrow>
             Rejected (ServiceError f) \<lparr>counters = zeroCounters, s3 = s', console = []\<rparr>
         | (Inr ks, s') \<Rightarrow>
             (case processKeys parse config lmt dry
                     \<lparr>counters = zeroCounters, s3 = s',
                      console = [LogFound (length ks) (detailsPrefix config)]\<rparr> ks of
                Continue st \<Rightarrow> Resolved st
              | Return st \<Rightarrow> Resolved st
              | Abort err st \<Rightarrow> Rejected err st))"

section \<open>Notions the properties are stated with\<close>

text \<open>
  The header lines an optional field contributes to the serialized message: one line
  \<open>Name: value\<close> when the field is present and not empty, none otherwise.
\<close>

definition optionalHeader :: "string \<Rightarrow> string option \<Rightarrow> string list" where
  "optionalHeader n v = (case v of None \<Rightarrow> [] | Some x \<Rightarrow> if x = [] then [] else [n @ '': '' @ x])"

text \<open>The records a stream yields, and the warnings it gives as (file, message).\<close>

definition yielded :: "'r StreamItem list \<Rightarrow> 'r list" where
  "yielded items =
     List.map_filter (\<lambda>i. case i of Yield r \<Rightarrow> Some r | WarnFailedToParse f m \<Rightarrow> None) items"

definition warned :: "'r StreamItem list \<Rightarrow> (string \<times> string) list" where
  "warned items =
     List.map_filter (\<lambda>i. case i of Yield r \<Rightarrow> None | WarnFailedToParse f m \<Rightarrow> Some (f, m)) items"

text \<open>The state a step, and a run, ends in; the counters a run resolves with.\<close>

definition outcomeState :: "StepOutcome \<Rightarrow> RunState" where
  "outcomeState out = (case out of Continue st \<Rightarrow> st | Return st \<Rightarrow> st | Abort err st \<Rightarrow> st)"

definition resultState :: "RunResult \<Rightarrow> RunState" where
  "resultState res = (case res of Resolved st \<Rightarrow> st | Rejected err st \<Rightarrow> st)"

definition resultCounters :: "RunResult \<Rightarrow> Counters option" where
  "resultCounters res = (case res of Resolved st \<Rightarrow> Some (counters st) | Rejected err st \<Rightarrow> None)"

text \<open>The writes among the commands sent to the store.\<close>

definition isPut :: "S3Command \<Rightarrow> bool" where
  "isPut c = (case c of PutObjectCommand k v t \<Rightarrow> True | other \<Rightarrow> False)"

definition writes :: "S3Client \<Rightarrow> S3Command list" where
  "writes s = filter isPut (sent s)"

text \<open>The first result that is not null, left to right.\<close>

fun firstResult :: "'a option list \<Rightarrow> 'a option" where
  "firstResult [] = None"
| "firstResult (None # rs) = firstResult rs"
| "firstResult (Some x # rs) = Some x"

text \<open>
  A part whose media type is exactly \<open>t\<close>, whatever the case of its letters, and that
  carries body data (data that is present and not empty).
\<close>

definition hasBodyData :: "GmailPart \<Rightarrow> bool" where
  "hasBodyData p =
     (case body p of
        None \<Rightarrow> False
      | Some b \<Rightarrow> (case data b of None \<Rightarrow> False | Some d \<Rightarrow> d \<noteq> []))"

definition hasMediaType :: "string \<Rightarrow> GmailPart \<Rightarrow> bool" where
  "hasMediaType t p = (case mimeType p of None \<Rightarrow> False | Some m \<Rightarrow> toLowerCase m = t)"






section \<open>Sample inputs\<close>

definition sampleEmail :: ExtractedEmail where
  "sampleEmail =
     \<lparr>messageId = ''m1'', subject = Some ''Hi'', from' = Some ''a@example.org'', to = None,
      cc = Some [], bcc = None, date = None, bodyMime = TextPlain, email_body = ''hello'',
      email_snippet = None\<rparr>"

definition sampleParse :: "string \<Rightarrow> string + string" where
  "sampleParse l = (if l = ''oops'' then Inl ''Unexpected token'' else Inr l)"

definition sampleLines :: "string list" where
  "sampleLines = [''{1} '', ''   '', ''oops'', [], ''{2}'']"

definition plainMessage :: "string \<Rightarrow> string \<Rightarrow> GmailMessage" where
  "plainMessage i d =
     GmailMessage (Some i) None None None
       (Some (GmailPart (Some ''text/plain'') None []
                (Some \<lparr>size' = None, data = Some d\<rparr>) []))
       None None None"

definition bareMessage :: "string \<Rightarrow> GmailMessage" where
  "bareMessage i = GmailMessage (Some i) None None None None None None None"

text \<open>
  A stand-in for \<open>JSON.parse\<close> on the sample files: the line \<open>oops\<close> does not parse, a
  line \<open>bare:x\<close> is a message with the id \<open>x\<close> and no payload, any other line is a
  message with the line as its id and the text/plain body \<open>hello\<close>.
\<close>

definition sampleJson :: "string \<Rightarrow> string + GmailMessage" where
  "sampleJson l =
     (if l = ''oops'' then Inl ''Unexpected token''
      else if startsWith l ''bare:'' then Inr (bareMessage (drop 5 l))
      else Inr (plainMessage l ''aGVsbG8''))"

definition sampleConfig :: AppConfig where
  "sampleConfig =
     \<lparr>region = ''us-east-1'', bucket = ''b'', airbytePrefix = ''raw/'',
      messagesPrefix = ''raw/messages/'', detailsPrefix = ''raw/messages_details/'',
      rawFilesPrefix = ''raw/raw-files/'', workspaceId = ''w'', connectorId = ''c''\<rparr>"

definition storeOf :: "(string \<times> string) list \<Rightarrow> S3Client" where
  "storeOf objs = \<lparr>objects = objs, faults = (\<lambda>c. None), sent = [], maxKeys = 1000\<rparr>"

definition startState :: "S3Client \<Rightarrow> RunState" where
  "startState s = \<lparr>counters = zeroCounters, s3 = s, console = []\<rparr>"

definition LF :: string where
  "LF = [CHR 0x0A]"

definition detailsFile :: "string list \<Rightarrow> string \<times> string" where
  "detailsFile ls = (''raw/messages_details/a.jsonl'', join LF ls)"

definition helloEmail :: "string \<Rightarrow> ExtractedEmail" where
  "helloEmail i =
     \<lparr>messageId = i, subject = None, from' = None, to = None, cc = None, bcc = None,
      date = None, bodyMime = TextPlain, email_body = ''hello'', email_snippet = None\<rparr>"

text \<open>A record with the top-level id \<open>top\<close> around an Airbyte envelope with the id \<open>inner\<close>.\<close>

definition wrappedMessage :: GmailMessage where
  "wrappedMessage =
     GmailMessage (Some ''top'') None (Some (plainMessage ''inner'' ''aGVsbG8'')) None None None
       None None"

definition leafPart :: "string \<Rightarrow> string \<Rightarrow> GmailPart" where
  "leafPart t d = GmailPart (Some t) None [] (Some \<lparr>size' = None, data = Some d\<rparr>) []"

text \<open>A multipart message whose text/plain child comes before its text/html child.\<close>

definition alternativePart :: GmailPart where
  "alternativePart =
     GmailPart (Some ''multipart/alternative'') None [] None
       [leafPart ''text/plain'' ''cGxhaW4'', leafPart ''Text/HTML'' ''aHRtbA'']"

section \<open>The serialized message\<close>

lemma filterBoolean_headerLine:
  "filterBoolean (headerLine n v # xs) = optionalHeader n v @ filterBoolean xs"
  by (cases v) (simp_all add: filterBoolean_def headerLine_def optionalHeader_def truthy_def)

lemma filterBoolean_Some:
  "s \<noteq> [] \<Longrightarrow> filterBoolean (Some s # xs) = s # filterBoolean xs"
  by (simp add: filterBoolean_def truthy_def)

lemma filterBoolean_Nil: "filterBoolean [] = []"
  by (simp add: filterBoolean_def)

text \<open>
  C8. For every extracted message, \<open>toEml\<close> emits each optional header field that is
  present and not empty as \<open>Name: value\<close>, in the order From, To, Cc, Bcc, Subject, Date,
  then \<open>Message-ID: <id@gmail>\<close>, \<open>MIME-Version: 1.0\<close> and
  \<open>Content-Type: bodyMime; charset="UTF-8"\<close>; the header lines are joined by CRLF, two
  CRLF follow, and the body text is appended as it is.
\<close>

theorem toEml_format:
  "toEml e =
     join CRLF
       (optionalHeader ''From'' (from' e) @ optionalHeader ''To'' (to e)
        @ optionalHeader ''Cc'' (cc e) @ optionalHeader ''Bcc'' (bcc e)
        @ optionalHeader ''Subject'' (subject e) @ optionalHeader ''Date'' (date e)
        @ [''Message-ID: <'' @ messageId e @ ''@gmail>'',
           ''MIME-Version: 1.0'',
           ''Content-Type: '' @ bodyMimeString (bodyMime e)
             @ ''; charset='' @ dquote @ ''UTF-8'' @ dquote])
     @ CRLF @ CRLF @ email_body e"
  unfolding toEml_def Let_def
  by (simp add: filterBoolean_headerLine filterBoolean_Some filterBoolean_Nil)

theorem toEml_format_witness:
  "toEml sampleEmail =
     ''From: a@example.org'' @ CRLF @ ''Subject: Hi'' @ CRLF @ ''Message-ID: <m1@gmail>'' @ CRLF
     @ ''MIME-Version: 1.0'' @ CRLF @ ''Content-Type: text/plain; charset='' @ dquote
     @ ''UTF-8'' @ dquote @ CRLF @ CRLF @ ''hello''"
  using toEml_format [of sampleEmail]
  by (simp add: sampleEmail_def optionalHeader_def bodyMimeString_def)

section \<open>The listing\<close>

text \<open>
  Five objects and pages of two keys: two listings are sent, and the three keys under the
  prefix that end in \<open>.jsonl\<close> come back in listing order.
\<close>

lemma listJsonlKeys_pages:
  "(case listJsonlKeys
           ((storeOf [(''in/a.jsonl'', []), (''in/b.txt'', []), (''other/c.jsonl'', []),
                      (''in/d.JSONL'', []), (''in/e.jsonl'', [])])\<lparr>maxKeys := 2\<rparr>) ''in/'' of
      (Inr ks, s) \<Rightarrow>
        ks = [''in/a.jsonl'', ''in/d.JSONL'', ''in/e.jsonl'']
        \<and> sent s = [ListObjectsV2Command ''in/'' None, ListObjectsV2Command ''in/'' (Some 2)]
    | (Inl f, s) \<Rightarrow> False)"
  by code_simp

section \<open>The record stream\<close>

lemma readJsonlLines_map:
  "readJsonlLines parse k ls =
     map (\<lambda>l. case parse (trim l) of Inr r \<Rightarrow> Yield r | Inl msg \<Rightarrow> WarnFailedToParse k msg)
       (filter (\<lambda>l. trim l \<noteq> []) ls)"
  by (induction ls) (simp_all add: Let_def split: sum.splits)

text \<open>
  C9. For every sequence of input lines of a record file, the stream holds, in the order
  of the lines, one item for each line that is not blank or white space only: the record
  when the line parses, and a warning that names the file when it does not. So the stream
  yields exactly the records of the lines that parse, a line that fails gives one warning
  with the key of the file and is skipped, and what a line does never ends the stream or
  changes what the later lines give.
\<close>

theorem readJsonlLines_stream:
  "readJsonlLines parse k ls =
     map (\<lambda>l. case parse (trim l) of Inr r \<Rightarrow> Yield r | Inl msg \<Rightarrow> WarnFailedToParse k msg)
       (filter (\<lambda>l. trim l \<noteq> []) ls)
   \<and> yielded (readJsonlLines parse k ls) =
     List.map_filter (\<lambda>l. case parse (trim l) of Inr r \<Rightarrow> Some r | Inl msg \<Rightarrow> None)
       (filter (\<lambda>l. trim l \<noteq> []) ls)
   \<and> warned (readJsonlLines parse k ls) =
     List.map_filter (\<lambda>l. case parse (trim l) of Inr r \<Rightarrow> None | Inl msg \<Rightarrow> Some (k, msg))
       (filter (\<lambda>l. trim l \<noteq> []) ls)
   \<and> readJsonlLines parse k (ls @ ls') = readJsonlLines parse k ls @ readJsonlLines parse k ls'"
proof -
  have m: "\<And>xs. readJsonlLines parse k xs =
     map (\<lambda>l. case parse (trim l) of Inr r \<Rightarrow> Yield r | Inl msg \<Rightarrow> WarnFailedToParse k msg)
       (filter (\<lambda>l. trim l \<noteq> []) xs)"
    by (rule readJsonlLines_map)
  have y: "yielded (readJsonlLines parse k ls) =
     List.map_filter (\<lambda>l. case parse (trim l) of Inr r \<Rightarrow> Some r | Inl msg \<Rightarrow> None)
       (filter (\<lambda>l. trim l \<noteq> []) ls)"
    by (induction ls) (simp_all add: yielded_def Let_def split: sum.splits)
  have w: "warned (readJsonlLines parse k ls) =
     List.map_filter (\<lambda>l. case parse (trim l) of Inr r \<Rightarrow> None | Inl msg \<Rightarrow> Some (k, msg))
       (filter (\<lambda>l. trim l \<noteq> []) ls)"
    by (induction ls) (simp_all add: warned_def Let_def split: sum.splits)
  have a: "readJsonlLines parse k (ls @ ls') = readJsonlLines parse k ls @ readJsonlLines parse k ls'"
    by (simp add: m)
  from m y w a show ?thesis by blast
qed

theorem readJsonlLines_stream_witness:
  "readJsonlLines sampleParse ''in/a.jsonl'' sampleLines =
     [Yield ''{1}'', WarnFailedToParse ''in/a.jsonl'' ''Unexpected token'', Yield ''{2}'']
   \<and> yielded (readJsonlLines sampleParse ''in/a.jsonl'' sampleLines) = [''{1}'', ''{2}'']
   \<and> warned (readJsonlLines sampleParse ''in/a.jsonl'' sampleLines) =
       [(''in/a.jsonl'', ''Unexpected token'')]"
proof -
  have t: "map trim sampleLines = [''{1}'', [], ''oops'', [], ''{2}'']"
    by code_simp
  then have t': "trim ''{1} '' = ''{1}''" "trim ''   '' = []" "trim ''oops'' = ''oops''"
    "trim [] = []" "trim ''{2}'' = ''{2}''"
    by (simp_all add: sampleLines_def)
  show ?thesis
    using readJsonlLines_stream [of sampleParse "''in/a.jsonl''" sampleLines "[]"]
    by (simp add: sampleLines_def t' sampleParse_def)
qed

section \<open>The counters of a run\<close>

lemma s3_count_processed [simp]: "s3 (count_processed st) = s3 st"
  by (simp add: count_processed_def)

lemma processed_say [simp]: "counters (say l st) = counters st"
  by (simp add: say_def)

lemma tryBlock_reached:
  "reached (processed (counters st)) lmt \<Longrightarrow> tryBlock config lmt dry k st r = Returned st"
  by (simp add: tryBlock_def)

lemma processRecord_reached:
  "reached (processed (counters st)) lmt \<Longrightarrow> processRecord config lmt dry k st r = Return st"
  by (simp add: processRecord_def tryBlock_reached)

lemma processRecord_processed:
  "processed (counters (outcomeState (processRecord config lmt dry k st r))) =
     (if reached (processed (counters st)) lmt then processed (counters st)
      else processed (counters st) + 1)"
  by (simp add: processRecord_def tryBlock_def catchClause_def outcomeState_def Let_def
        count_processed_def count_failed_def count_skipped_def count_created_def say_def
      split: option.splits sum.splits prod.splits bool.splits)

lemma processStream_bound:
  assumes step: "\<And>n. \<not> reached n lmt \<Longrightarrow> n < B"
  shows "processed (counters st) \<le> B \<Longrightarrow>
     processed (counters (outcomeState (processStream config lmt dry k st items))) \<le> B"
proof (induction items arbitrary: st)
  case Nil
  then show ?case by (simp add: outcomeState_def)
next
  case (Cons item items)
  show ?case
  proof (cases item)
    case (WarnFailedToParse f msg)
    then show ?thesis using Cons by simp
  next
    case (Yield r)
    have b: "processed (counters (outcomeState (processRecord config lmt dry k st r))) \<le> B"
      using Cons.prems step [of "processed (counters st)"]
      by (auto simp add: processRecord_processed)
    show ?thesis
    proof (cases "processRecord config lmt dry k st r")
      case (Continue st')
      then show ?thesis using Yield b Cons.IH [of st'] by (simp add: outcomeState_def)
    next
      case (Return st')
      then show ?thesis using Yield b by (simp add: outcomeState_def)
    next
      case (Abort err st')
      then show ?thesis using Yield b by (simp add: outcomeState_def)
    qed
  qed
qed

lemma processKeys_bound:
  assumes step: "\<And>n. \<not> reached n lmt \<Longrightarrow> n < B"
  shows "processed (counters st) \<le> B \<Longrightarrow>
     processed (counters (outcomeState (processKeys parse config lmt dry st ks))) \<le> B"
proof (induction ks arbitrary: st)
  case Nil
  then show ?case by (simp add: outcomeState_def)
next
  case (Cons k ks)
  let ?st1 = "say (LogReading k) st"
  show ?case
  proof (cases "readJsonlFromS3 parse (s3 ?st1) k")
    case (Pair res s')
    show ?thesis
    proof (cases res)
      case (Inl f)
      then show ?thesis using Pair Cons.prems by (simp add: outcomeState_def Let_def)
    next
      case (Inr items)
      have p: "processed (counters (?st1\<lparr>s3 := s'\<rparr>)) \<le> B"
        using Cons.prems by simp
      have b: "processed (counters (outcomeState
                 (processStream config lmt dry k (?st1\<lparr>s3 := s'\<rparr>) items))) \<le> B"
        by (rule processStream_bound [OF step p])
      show ?thesis
      proof (cases "processStream config lmt dry k (?st1\<lparr>s3 := s'\<rparr>) items")
        case (Continue st')
        then show ?thesis using Pair Inr b Cons.IH [of st'] by (simp add: outcomeState_def Let_def)
      next
        case (Return st')
        then show ?thesis using Pair Inr b by (simp add: outcomeState_def Let_def)
      next
        case (Abort err st')
        then show ?thesis using Pair Inr b by (simp add: outcomeState_def Let_def)
      qed
    qed
  qed
qed

lemma processMessages_bound:
  assumes step: "\<And>n. \<not> reached n (case limit opts of None \<Rightarrow> PosInfinity | Some l \<Rightarrow> l) \<Longrightarrow> n < B"
  shows "processed (counters (resultState (processMessages parse client config opts))) \<le> B"
proof (cases "listJsonlKeys client (detailsPrefix config)")
  case (Pair res s')
  show ?thesis
  proof (cases res)
    case (Inl f)
    then show ?thesis using Pair
      by (simp add: processMessages_def resultState_def zeroCounters_def)
  next
    case (Inr ks)
    let ?lmt = "case limit opts of None \<Rightarrow> PosInfinity | Some l \<Rightarrow> l"
    let ?dry = "case dryRun opts of None \<Rightarrow> False | Some d \<Rightarrow> d"
    let ?st0 = "\<lparr>counters = zeroCounters, s3 = s',
                 console = [LogFound (length ks) (detailsPrefix config)]\<rparr>"
    have p: "processed (counters ?st0) \<le> B"
      by (simp add: zeroCounters_def)
    have b: "processed (counters (outcomeState (processKeys parse config ?lmt ?dry ?st0 ks))) \<le> B"
      by (rule processKeys_bound [OF step p])
    show ?thesis
      using Pair Inr b
      by (cases "processKeys parse config ?lmt ?dry ?st0 ks")
         (simp_all add: processMessages_def resultState_def outcomeState_def)
  qed
qed

lemma reached_Num_bound: "\<not> reached n (Num q) \<Longrightarrow> n < nat \<lceil>q\<rceil>"
  by (simp add: reached_def) linarith

text \<open>
  C7, as amended. The limit is checked before \<open>processed\<close> is incremented for a record.
  When \<open>processed\<close> has reached the limit the loop returns the state as it is: nothing
  is counted, nothing is sent to the store and no later item of the stream is looked at.
  Otherwise the record adds exactly one to \<open>processed\<close>. For a finite limit \<open>q\<close> the
  processed count of a run never exceeds \<open>q\<close> rounded up to a whole number, or zero when
  that is negative; so it never exceeds a limit that is a whole number \<open>n \<ge> 0\<close>.
\<close>

theorem limit_enforced:
  "(reached (processed (counters st)) lmt \<longrightarrow>
      processStream config lmt dry k st (Yield r # items) = Return st)
   \<and> (\<not> reached (processed (counters st)) lmt \<longrightarrow>
      processed (counters (outcomeState (processRecord config lmt dry k st r)))
        = processed (counters st) + 1)
   \<and> (limit opts = Some (Num q) \<longrightarrow>
      int (processed (counters (resultState (processMessages parse client config opts))))
        \<le> max 0 \<lceil>q\<rceil>)
   \<and> (limit opts = Some (Num (of_nat n)) \<longrightarrow>
      processed (counters (resultState (processMessages parse client config opts))) \<le> n)"
proof (intro conjI impI)
  assume "reached (processed (counters st)) lmt"
  then show "processStream config lmt dry k st (Yield r # items) = Return st"
    by (simp add: processRecord_reached)
next
  assume "\<not> reached (processed (counters st)) lmt"
  then show "processed (counters (outcomeState (processRecord config lmt dry k st r)))
        = processed (counters st) + 1"
    by (simp add: processRecord_processed)
next
  assume l: "limit opts = Some (Num q)"
  have "processed (counters (resultState (processMessages parse client config opts)))
          \<le> nat \<lceil>q\<rceil>"
    by (rule processMessages_bound) (simp add: l reached_Num_bound)
  then show "int (processed (counters (resultState (processMessages parse client config opts))))
        \<le> max 0 \<lceil>q\<rceil>"
    by linarith
next
  assume l: "limit opts = Some (Num (of_nat n))"
  have "processed (counters (resultState (processMessages parse client config opts))) \<le> n"
    by (rule processMessages_bound) (simp add: l reached_def)
  then show "processed (counters (resultState (processMessages parse client config opts))) \<le> n"
    by simp
qed

text \<open>
  With the limit 2.5 and four records the run processes three: \<open>processed\<close> exceeds the
  limit.
\<close>

theorem limit_exceeded_counterexample:
  "processed (counters (resultState
      (processMessages sampleJson (storeOf [detailsFile [''m1'', ''m2'', ''m3'', ''m4'']])
         sampleConfig \<lparr>limit = Some (Num (5 / 2)), dryRun = None\<rparr>))) = 3
   \<and> \<not> (of_nat 3 \<le> (5 / 2 :: rat))"
proof
  show "processed (counters (resultState
      (processMessages sampleJson (storeOf [detailsFile [''m1'', ''m2'', ''m3'', ''m4'']])
         sampleConfig \<lparr>limit = Some (Num (5 / 2)), dryRun = None\<rparr>))) = 3"
    by code_simp
  show "\<not> (of_nat 3 \<le> (5 / 2 :: rat))"
    by simp
qed

theorem limit_enforced_witness:
  "processStream sampleConfig (Num 0) False ''k'' (startState (storeOf []))
       [Yield (bareMessage ''m1''), Yield (bareMessage ''m2'')]
     = Return (startState (storeOf []))
   \<and> processed (counters (outcomeState
        (processRecord sampleConfig (Num 1) False ''k'' (startState (storeOf [])) (bareMessage [])))) = 1
   \<and> processed (counters (resultState
        (processMessages sampleJson (storeOf [detailsFile [''m1'', ''m2'', ''m3'', ''m4'']])
           sampleConfig \<lparr>limit = Some (Num 2), dryRun = None\<rparr>))) \<le> 2"
proof -
  have r0: "reached (processed (counters (startState (storeOf [])))) (Num 0)"
    by (simp add: reached_def startState_def zeroCounters_def)
  have r1: "\<not> reached (processed (counters (startState (storeOf [])))) (Num 1)"
    by (simp add: reached_def startState_def zeroCounters_def)
  have p0: "processed (counters (startState (storeOf []))) = 0"
    by (simp add: startState_def zeroCounters_def)
  have l2: "limit \<lparr>limit = Some (Num 2), dryRun = None\<rparr> = Some (Num (of_nat 2))"
    by simp
  note t1 = limit_enforced [of "startState (storeOf [])" "Num 0" sampleConfig False "''k''"
      "bareMessage ''m1''" "[Yield (bareMessage ''m2'')]" "\<lparr>limit = Some (Num 2), dryRun = None\<rparr>"
      2 sampleJson "storeOf [detailsFile [''m1'', ''m2'', ''m3'', ''m4'']]" 2]
  note t2 = limit_enforced [of "startState (storeOf [])" "Num 1" sampleConfig False "''k''"
      "bareMessage []" "[]" "\<lparr>limit = Some (Num 2), dryRun = None\<rparr>"
      2 sampleJson "storeOf [detailsFile [''m1'', ''m2'', ''m3'', ''m4'']]" 2]
  from t1 r0 have a: "processStream sampleConfig (Num 0) False ''k'' (startState (storeOf []))
       [Yield (bareMessage ''m1''), Yield (bareMessage ''m2'')] = Return (startState (storeOf []))"
    by blast
  from t2 r1 p0 have b: "processed (counters (outcomeState
        (processRecord sampleConfig (Num 1) False ''k'' (startState (storeOf [])) (bareMessage [])))) = 1"
    by simp
  from t1 l2 have c: "processed (counters (resultState
        (processMessages sampleJson (storeOf [detailsFile [''m1'', ''m2'', ''m3'', ''m4'']])
           sampleConfig \<lparr>limit = Some (Num 2), dryRun = None\<rparr>))) \<le> 2"
    by simp
  from a b c show ?thesis by blast
qed

lemma run_at_limit_2:
  "resultCounters (processMessages sampleJson (storeOf [detailsFile [''m1'', ''m2'', ''m3'', ''m4'']])
           sampleConfig \<lparr>limit = Some (Num 2), dryRun = None\<rparr>)
    = Some \<lparr>processed = 2, created = 2, skipped = 0, failed = 0\<rparr>"
  by code_simp

section \<open>One record\<close>

lemma exists'_store:
  "exists' s k = (res, s') \<Longrightarrow> s' = record_sent (HeadObjectCommand k) s"
  by (auto simp add: exists'_def sendHeadObject_def Let_def
      split: option.splits if_splits)

lemma exists'_absent:
  "map_of (objects s) k = None \<Longrightarrow> faults s (HeadObjectCommand k) = None \<Longrightarrow>
   exists' s k = (Inr False, record_sent (HeadObjectCommand k) s)"
  by (simp add: exists'_def sendHeadObject_def)

lemma exists'_present:
  "map_of (objects s) k = Some v \<Longrightarrow> faults s (HeadObjectCommand k) = None \<Longrightarrow>
   exists' s k = (Inr True, record_sent (HeadObjectCommand k) s)"
  by (simp add: exists'_def sendHeadObject_def)

lemma record_sent_simps [simp]:
  "objects (record_sent c s) = objects s"
  "faults (record_sent c s) = faults s"
  "sent (record_sent c s) = sent s @ [c]"
  by (simp_all add: record_sent_def)

lemma writes_record_sent:
  "writes (record_sent c s) = writes s @ (if isPut c then [c] else [])"
  by (simp add: writes_def)

lemma state_simps [simp]:
  "s3 (say l st) = s3 st" "console (say l st) = console st @ [l]"
  "s3 (count_created st) = s3 st" "s3 (count_skipped st) = s3 st" "s3 (count_failed st) = s3 st"
  "console (count_processed st) = console st"
  "counters (count_processed st) = (counters st)\<lparr>processed := processed (counters st) + 1\<rparr>"
  "counters (count_created st) = (counters st)\<lparr>created := created (counters st) + 1\<rparr>"
  "counters (count_skipped st) = (counters st)\<lparr>skipped := skipped (counters st) + 1\<rparr>"
  "counters (count_failed st) = (counters st)\<lparr>failed := failed (counters st) + 1\<rparr>"
  by (simp_all add: say_def count_created_def count_skipped_def count_failed_def count_processed_def)

lemma tryBlock_dry:
  "\<not> reached (processed (counters st)) lmt \<Longrightarrow> recordMsgId r = Some m \<Longrightarrow>
   exists' (s3 st) (targetKeyOf config m) = (Inr False, s') \<Longrightarrow> extractEmail r = Inr email \<Longrightarrow>
   tryBlock config lmt True k st r =
     Completed (say (LogWouldCreate (targetKeyOf config m))
       (say (LogPreview (workspaceId config) (connectorId config) (targetKeyOf config m))
          ((count_processed st)\<lparr>s3 := s'\<rparr>)))"
  by (simp add: tryBlock_def Let_def)

lemma tryBlock_put:
  "\<not> reached (processed (counters st)) lmt \<Longrightarrow> recordMsgId r = Some m \<Longrightarrow>
   exists' (s3 st) (targetKeyOf config m) = (Inr False, s') \<Longrightarrow> extractEmail r = Inr email \<Longrightarrow>
   tryBlock config lmt False k st r =
     (let st2 = say (LogPreview (workspaceId config) (connectorId config) (targetKeyOf config m))
                  ((count_processed st)\<lparr>s3 := s'\<rparr>)
      in case sendPutObject s' (targetKeyOf config m) (toEml email) ''message/rfc822'' of
           (Inl f, s'') \<Rightarrow> Thrown (ServiceError f) (st2\<lparr>s3 := s''\<rparr>)
         | (Inr u, s'') \<Rightarrow>
             Completed (say (LogCreated (targetKeyOf config m)) (count_created (st2\<lparr>s3 := s''\<rparr>))))"
  by (simp add: tryBlock_def Let_def)

lemma tryBlock_skip:
  "\<not> reached (processed (counters st)) lmt \<Longrightarrow> recordMsgId r = Some m \<Longrightarrow>
   exists' (s3 st) (targetKeyOf config m) = (Inr True, s') \<Longrightarrow>
   tryBlock config lmt dry k st r =
     Completed (say (LogSkipping (targetKeyOf config m))
       (count_skipped ((count_processed st)\<lparr>s3 := s'\<rparr>)))"
  by (simp add: tryBlock_def Let_def)

lemma tryBlock_extract_fails:
  "\<not> reached (processed (counters st)) lmt \<Longrightarrow> recordMsgId r = Some m \<Longrightarrow>
   exists' (s3 st) (targetKeyOf config m) = (Inr False, s') \<Longrightarrow> extractEmail r = Inl err \<Longrightarrow>
   tryBlock config lmt dry k st r = Thrown err ((count_processed st)\<lparr>s3 := s'\<rparr>)"
  by (simp add: tryBlock_def Let_def)

lemma tryBlock_probe_fails:
  "\<not> reached (processed (counters st)) lmt \<Longrightarrow> recordMsgId r = Some m \<Longrightarrow>
   exists' (s3 st) (targetKeyOf config m) = (Inl err, s') \<Longrightarrow>
   tryBlock config lmt dry k st r = Thrown err ((count_processed st)\<lparr>s3 := s'\<rparr>)"
  by (simp add: tryBlock_def Let_def)

lemma sendPutObject_ok:
  "faults s (PutObjectCommand k v t) = None \<Longrightarrow>
   sendPutObject s k v t =
     (Inr (), (record_sent (PutObjectCommand k v t) s)\<lparr>objects := AList.update k v (objects s)\<rparr>)"
  by (simp add: sendPutObject_def)

lemma extract_plainMessage:
  "extractEmail (plainMessage ''m1'' ''aGVsbG8'') = Inr (helloEmail ''m1'')"
  by code_simp

lemma extract_bareMessage:
  "extractEmail (bareMessage ''m1'') = Inl (Error ''No body found'')"
  by code_simp

lemma msgId_plainMessage: "recordMsgId (plainMessage i d) = (if i = [] then None else Some i)"
  by (simp add: recordMsgId_def plainMessage_def orElse_def truthy_def envelopeId_def)

lemma start_simps [simp]:
  "counters (startState s) = zeroCounters" "s3 (startState s) = s" "console (startState s) = []"
  "objects (storeOf os) = os" "faults (storeOf os) c = None" "sent (storeOf os) = []"
  by (simp_all add: startState_def storeOf_def)

lemma zero_simps [simp]:
  "processed zeroCounters = 0" "created zeroCounters = 0" "skipped zeroCounters = 0"
  "failed zeroCounters = 0"
  by (simp_all add: zeroCounters_def)

text \<open>
  C2, as amended. For every record whose target key the probe finds absent and whose
  extraction succeeds, a dry run performs no write (the objects of the store and the
  writes sent to it are unchanged) and does not increment \<open>created\<close>: the record adds one
  to \<open>processed\<close> and nothing to any other counter, and the console gets the preview and
  the would-create line.
\<close>

theorem dryRun_not_counted:
  assumes "\<not> reached (processed (counters st)) lmt"
    and "recordMsgId r = Some m"
    and "exists' (s3 st) (targetKeyOf config m) = (Inr False, s')"
    and "extractEmail r = Inr email"
  shows "\<exists>st'. processRecord config lmt True k st r = Continue st'
     \<and> counters st' = (counters st)\<lparr>processed := processed (counters st) + 1\<rparr>
     \<and> created (counters st') = created (counters st)
     \<and> objects (s3 st') = objects (s3 st)
     \<and> writes (s3 st') = writes (s3 st)
     \<and> console st' = console st
          @ [LogPreview (workspaceId config) (connectorId config) (targetKeyOf config m),
             LogWouldCreate (targetKeyOf config m)]"
proof -
  let ?st' = "say (LogWouldCreate (targetKeyOf config m))
       (say (LogPreview (workspaceId config) (connectorId config) (targetKeyOf config m))
          ((count_processed st)\<lparr>s3 := s'\<rparr>))"
  have s': "s' = record_sent (HeadObjectCommand (targetKeyOf config m)) (s3 st)"
    using assms(3) by (rule exists'_store)
  have "processRecord config lmt True k st r = Continue ?st'"
    using assms by (simp add: processRecord_def tryBlock_dry)
  moreover have "counters ?st' = (counters st)\<lparr>processed := processed (counters st) + 1\<rparr>"
    by simp
  moreover have "created (counters ?st') = created (counters st)"
    by simp
  moreover have "objects (s3 ?st') = objects (s3 st)"
    by (simp add: s')
  moreover have "writes (s3 ?st') = writes (s3 st)"
    by (simp add: s' writes_record_sent isPut_def)
  moreover have "console ?st' = console st
          @ [LogPreview (workspaceId config) (connectorId config) (targetKeyOf config m),
             LogWouldCreate (targetKeyOf config m)]"
    by simp
  ultimately show ?thesis by blast
qed

theorem dryRun_not_counted_witness:
  "\<exists>st'. processRecord sampleConfig PosInfinity True ''raw/messages_details/a.jsonl''
            (startState (storeOf [])) (plainMessage ''m1'' ''aGVsbG8'') = Continue st'
     \<and> counters st' = \<lparr>processed = 1, created = 0, skipped = 0, failed = 0\<rparr>
     \<and> objects (s3 st') = []
     \<and> writes (s3 st') = []"
proof -
  have h1: "\<not> reached (processed (counters (startState (storeOf [])))) PosInfinity"
    by (simp add: reached_def)
  have h2: "recordMsgId (plainMessage ''m1'' ''aGVsbG8'') = Some ''m1''"
    by (simp add: msgId_plainMessage)
  have h3: "exists' (s3 (startState (storeOf []))) (targetKeyOf sampleConfig ''m1'')
      = (Inr False, record_sent (HeadObjectCommand (targetKeyOf sampleConfig ''m1'')) (storeOf []))"
    by (simp add: exists'_absent)
  from dryRun_not_counted [OF h1 h2 h3 extract_plainMessage, of "''raw/messages_details/a.jsonl''"]
  show ?thesis
    by (auto simp add: writes_def zeroCounters_def)
qed

text \<open>
  One record with an absent target: the dry run resolves with \<open>created = 0\<close>, the real
  run with \<open>created = 1\<close>.
\<close>

theorem dryRun_created_counterexample:
  "resultCounters (processMessages sampleJson (storeOf [detailsFile [''m1'']]) sampleConfig
       \<lparr>limit = None, dryRun = Some True\<rparr>)
     = Some \<lparr>processed = 1, created = 0, skipped = 0, failed = 0\<rparr>
   \<and> resultCounters (processMessages sampleJson (storeOf [detailsFile [''m1'']]) sampleConfig
       \<lparr>limit = None, dryRun = Some False\<rparr>)
     = Some \<lparr>processed = 1, created = 1, skipped = 0, failed = 0\<rparr>"
  by code_simp

text \<open>
  C3, as amended. For every record with a message id the existence check at the target
  key comes first. When the target exists the record is counted as skipped whatever the
  Extractor would give: extraction is not attempted for it. Only when the target is absent
  does the pipeline run the Extractor and then the Serializer: an error of the Extractor is
  thrown from the \<open>try\<close> block, and otherwise the serialized message
  \<open>toEml (extractEmail record)\<close> is what a dry run previews and a real run writes.
\<close>

theorem existence_check_before_extraction:
  assumes "\<not> reached (processed (counters st)) lmt"
    and "recordMsgId r = Some m"
  shows "(exists' (s3 st) (targetKeyOf config m) = (Inr True, s') \<longrightarrow>
            tryBlock config lmt dry k st r =
              Completed (say (LogSkipping (targetKeyOf config m))
                (count_skipped ((count_processed st)\<lparr>s3 := s'\<rparr>))))
     \<and> (exists' (s3 st) (targetKeyOf config m) = (Inr False, s') \<longrightarrow>
            (\<forall>err. extractEmail r = Inl err \<longrightarrow>
               tryBlock config lmt dry k st r = Thrown err ((count_processed st)\<lparr>s3 := s'\<rparr>))
          \<and> (\<forall>email. extractEmail r = Inr email \<longrightarrow>
               tryBlock config lmt True k st r =
                 Completed (say (LogWouldCreate (targetKeyOf config m))
                   (say (LogPreview (workspaceId config) (connectorId config) (targetKeyOf config m))
                      ((count_processed st)\<lparr>s3 := s'\<rparr>)))
               \<and> tryBlock config lmt False k st r =
                 (let st2 = say (LogPreview (workspaceId config) (connectorId config)
                                   (targetKeyOf config m))
                              ((count_processed st)\<lparr>s3 := s'\<rparr>)
                  in case sendPutObject s' (targetKeyOf config m) (toEml email) ''message/rfc822'' of
                       (Inl f, s'') \<Rightarrow> Thrown (ServiceError f) (st2\<lparr>s3 := s''\<rparr>)
                     | (Inr u, s'') \<Rightarrow>
                         Completed (say (LogCreated (targetKeyOf config m))
                           (count_created (st2\<lparr>s3 := s''\<rparr>))))))"
  using assms
  by (simp add: tryBlock_skip tryBlock_extract_fails tryBlock_dry tryBlock_put)

theorem existence_check_before_extraction_witness:
  "tryBlock sampleConfig PosInfinity False ''raw/messages_details/a.jsonl''
      (startState (storeOf [(targetKeyOf sampleConfig ''m1'', ''x'')])) (bareMessage ''m1'')
    = Completed (say (LogSkipping (targetKeyOf sampleConfig ''m1''))
        (count_skipped ((count_processed (startState (storeOf [(targetKeyOf sampleConfig ''m1'', ''x'')])))
           \<lparr>s3 := record_sent (HeadObjectCommand (targetKeyOf sampleConfig ''m1''))
                    (storeOf [(targetKeyOf sampleConfig ''m1'', ''x'')])\<rparr>)))
   \<and> tryBlock sampleConfig PosInfinity False ''raw/messages_details/a.jsonl''
      (startState (storeOf [])) (bareMessage ''m1'')
    = Thrown (Error ''No body found'')
        ((count_processed (startState (storeOf [])))
           \<lparr>s3 := record_sent (HeadObjectCommand (targetKeyOf sampleConfig ''m1'')) (storeOf [])\<rparr>)"
proof -
  have h1: "\<And>s. \<not> reached (processed (counters (startState s))) PosInfinity"
    by (simp add: reached_def)
  have h2: "recordMsgId (bareMessage ''m1'') = Some ''m1''"
    by (simp add: recordMsgId_def bareMessage_def orElse_def truthy_def)
  have p: "exists' (s3 (startState (storeOf [(targetKeyOf sampleConfig ''m1'', ''x'')])))
             (targetKeyOf sampleConfig ''m1'')
      = (Inr True, record_sent (HeadObjectCommand (targetKeyOf sampleConfig ''m1''))
           (storeOf [(targetKeyOf sampleConfig ''m1'', ''x'')]))"
    by (simp add: exists'_present)
  have a: "exists' (s3 (startState (storeOf []))) (targetKeyOf sampleConfig ''m1'')
      = (Inr False, record_sent (HeadObjectCommand (targetKeyOf sampleConfig ''m1'')) (storeOf []))"
    by (simp add: exists'_absent)
  from existence_check_before_extraction [OF h1 h2,
      of "storeOf [(targetKeyOf sampleConfig ''m1'', ''x'')]" sampleConfig
         "record_sent (HeadObjectCommand (targetKeyOf sampleConfig ''m1''))
           (storeOf [(targetKeyOf sampleConfig ''m1'', ''x'')])" False
         "''raw/messages_details/a.jsonl''"] p
  have c1: "tryBlock sampleConfig PosInfinity False ''raw/messages_details/a.jsonl''
      (startState (storeOf [(targetKeyOf sampleConfig ''m1'', ''x'')])) (bareMessage ''m1'')
    = Completed (say (LogSkipping (targetKeyOf sampleConfig ''m1''))
        (count_skipped ((count_processed (startState (storeOf [(targetKeyOf sampleConfig ''m1'', ''x'')])))
           \<lparr>s3 := record_sent (HeadObjectCommand (targetKeyOf sampleConfig ''m1''))
                    (storeOf [(targetKeyOf sampleConfig ''m1'', ''x'')])\<rparr>)))"
    by blast
  from existence_check_before_extraction [OF h1 h2,
      of "storeOf []" sampleConfig
         "record_sent (HeadObjectCommand (targetKeyOf sampleConfig ''m1'')) (storeOf [])" False
         "''raw/messages_details/a.jsonl''"] a extract_bareMessage
  have c2: "tryBlock sampleConfig PosInfinity False ''raw/messages_details/a.jsonl''
      (startState (storeOf [])) (bareMessage ''m1'')
    = Thrown (Error ''No body found'')
        ((count_processed (startState (storeOf [])))
           \<lparr>s3 := record_sent (HeadObjectCommand (targetKeyOf sampleConfig ''m1'')) (storeOf [])\<rparr>)"
    by blast
  from c1 c2 show ?thesis by blast
qed

text \<open>
  A record whose extraction fails (it has no body) and whose target exists is skipped,
  not failed: the Extractor did not run for it.
\<close>

theorem extraction_skipped_counterexample:
  "extractEmail (bareMessage ''m1'') = Inl (Error ''No body found'')
   \<and> resultCounters (processMessages sampleJson
         (storeOf [detailsFile [''bare:m1''], (''raw/raw-files/w/gmail/m1.eml'', ''x'')])
         sampleConfig \<lparr>limit = None, dryRun = None\<rparr>)
     = Some \<lparr>processed = 1, created = 0, skipped = 1, failed = 0\<rparr>"
  by code_simp

lemma map_of_update_same: "map_of (AList.update k v al) k = Some v"
  by (simp add: update_conv')

text \<open>
  C6. The target key is \<open>rawFilesPrefix + workspaceId + "/gmail/" + messageId + ".eml"\<close>,
  a function of these three strings. Processing the same message twice in sequence, in a
  real run, against a store that does not hold the target and answers the probe and the
  write, creates it the first time with one write and skips it the second time with no
  write: the store is sent the probe, the write and the second probe, and nothing else.
\<close>

theorem publish_twice:
  assumes "\<not> reached (processed (counters st)) lmt"
    and "\<not> reached (processed (counters st) + 1) lmt"
    and "recordMsgId r = Some m"
    and "extractEmail r = Inr email"
    and "map_of (objects (s3 st)) (targetKeyOf config m) = None"
    and "faults (s3 st) (HeadObjectCommand (targetKeyOf config m)) = None"
    and "faults (s3 st) (PutObjectCommand (targetKeyOf config m) (toEml email) ''message/rfc822'') = None"
  shows "targetKeyOf config m = rawFilesPrefix config @ workspaceId config @ ''/gmail/'' @ m @ ''.eml''
     \<and> (\<exists>st1 st2.
           processRecord config lmt False k st r = Continue st1
         \<and> processRecord config lmt False k st1 r = Continue st2
         \<and> processStream config lmt False k st [Yield r, Yield r] = Continue st2
         \<and> counters st1 = (counters st)\<lparr>processed := processed (counters st) + 1,
                                           created := created (counters st) + 1\<rparr>
         \<and> counters st2 = (counters st1)\<lparr>processed := processed (counters st1) + 1,
                                            skipped := skipped (counters st1) + 1\<rparr>
         \<and> writes (s3 st1) = writes (s3 st)
              @ [PutObjectCommand (targetKeyOf config m) (toEml email) ''message/rfc822'']
         \<and> writes (s3 st2) = writes (s3 st1)
         \<and> sent (s3 st2) = sent (s3 st)
              @ [HeadObjectCommand (targetKeyOf config m),
                 PutObjectCommand (targetKeyOf config m) (toEml email) ''message/rfc822'',
                 HeadObjectCommand (targetKeyOf config m)]
         \<and> map_of (objects (s3 st1)) (targetKeyOf config m) = Some (toEml email)
         \<and> objects (s3 st2) = objects (s3 st1))"
proof -
  let ?t = "targetKeyOf config m"
  let ?put = "PutObjectCommand ?t (toEml email) ''message/rfc822''"
  let ?s' = "record_sent (HeadObjectCommand ?t) (s3 st)"
  let ?s'' = "(record_sent ?put ?s')\<lparr>objects := AList.update ?t (toEml email) (objects ?s')\<rparr>"
  let ?st1 = "say (LogCreated ?t)
     (count_created
        ((say (LogPreview (workspaceId config) (connectorId config) ?t)
            ((count_processed st)\<lparr>s3 := ?s'\<rparr>))\<lparr>s3 := ?s''\<rparr>))"
  let ?s3 = "record_sent (HeadObjectCommand ?t) ?s''"
  let ?st2 = "say (LogSkipping ?t) (count_skipped ((count_processed ?st1)\<lparr>s3 := ?s3\<rparr>))"
  have key: "?t = rawFilesPrefix config @ workspaceId config @ ''/gmail/'' @ m @ ''.eml''"
    by (simp add: targetKeyOf_def)
  have e1: "exists' (s3 st) ?t = (Inr False, ?s')"
    using assms(5,6) by (rule exists'_absent)
  have p1: "sendPutObject ?s' ?t (toEml email) ''message/rfc822'' = (Inr (), ?s'')"
    using assms(7) by (simp add: sendPutObject_ok)
  have r1: "processRecord config lmt False k st r = Continue ?st1"
    using assms(1,3,4) e1 p1 by (simp add: processRecord_def tryBlock_put Let_def)
  have s1: "s3 ?st1 = ?s''"
    by simp
  have e2: "exists' (s3 ?st1) ?t = (Inr True, ?s3)"
    unfolding s1 by (rule exists'_present [where v = "toEml email"]) (simp_all add: map_of_update_same assms(6))
  have n2: "\<not> reached (processed (counters ?st1)) lmt"
    using assms(2) by simp
  have r2: "processRecord config lmt False k ?st1 r = Continue ?st2"
    using n2 assms(3) e2 by (simp add: processRecord_def tryBlock_skip)
  have r3: "processStream config lmt False k st [Yield r, Yield r] = Continue ?st2"
    by (simp only: processStream.simps r1 r2 StepOutcome.case)
  have c1: "counters ?st1 = (counters st)\<lparr>processed := processed (counters st) + 1,
                                           created := created (counters st) + 1\<rparr>"
    by simp
  have c2: "counters ?st2 = (counters ?st1)\<lparr>processed := processed (counters ?st1) + 1,
                                            skipped := skipped (counters ?st1) + 1\<rparr>"
    by simp
  have w1: "writes (s3 ?st1) = writes (s3 st) @ [?put]"
    by (simp add: writes_def isPut_def)
  have w2: "writes (s3 ?st2) = writes (s3 ?st1)"
    by (simp add: writes_def isPut_def)
  have se: "sent (s3 ?st2) = sent (s3 st) @ [HeadObjectCommand ?t, ?put, HeadObjectCommand ?t]"
    by simp
  have o1: "map_of (objects (s3 ?st1)) ?t = Some (toEml email)"
    by (simp add: map_of_update_same)
  have o2: "objects (s3 ?st2) = objects (s3 ?st1)"
    by simp
  from key r1 r2 r3 c1 c2 w1 w2 se o1 o2 show ?thesis by blast
qed


theorem publish_twice_witness:
  "targetKeyOf sampleConfig ''m1'' = ''raw/raw-files/w/gmail/m1.eml''
   \<and> (\<exists>st1 st2.
         processRecord sampleConfig PosInfinity False ''raw/messages_details/a.jsonl''
           (startState (storeOf [])) (plainMessage ''m1'' ''aGVsbG8'') = Continue st1
       \<and> processRecord sampleConfig PosInfinity False ''raw/messages_details/a.jsonl''
           st1 (plainMessage ''m1'' ''aGVsbG8'') = Continue st2
       \<and> counters st1 = \<lparr>processed = 1, created = 1, skipped = 0, failed = 0\<rparr>
       \<and> counters st2 = \<lparr>processed = 2, created = 1, skipped = 1, failed = 0\<rparr>
       \<and> writes (s3 st2) =
           [PutObjectCommand ''raw/raw-files/w/gmail/m1.eml'' (toEml (helloEmail ''m1''))
              ''message/rfc822''])"
proof -
  have h1: "\<not> reached (processed (counters (startState (storeOf [])))) PosInfinity"
    by (simp add: reached_def)
  have h2: "\<not> reached (processed (counters (startState (storeOf []))) + 1) PosInfinity"
    by (simp add: reached_def)
  have h3: "recordMsgId (plainMessage ''m1'' ''aGVsbG8'') = Some ''m1''"
    by (simp add: msgId_plainMessage)
  have h5: "map_of (objects (s3 (startState (storeOf [])))) (targetKeyOf sampleConfig ''m1'') = None"
    by simp
  have h6: "faults (s3 (startState (storeOf [])))
              (HeadObjectCommand (targetKeyOf sampleConfig ''m1'')) = None"
    by simp
  have h7: "faults (s3 (startState (storeOf [])))
              (PutObjectCommand (targetKeyOf sampleConfig ''m1'') (toEml (helloEmail ''m1''))
                 ''message/rfc822'') = None"
    by simp
  have k: "targetKeyOf sampleConfig ''m1'' = ''raw/raw-files/w/gmail/m1.eml''"
    by (simp add: targetKeyOf_def sampleConfig_def)
  from publish_twice [OF h1 h2 h3 extract_plainMessage h5 h6 h7,
      of "''raw/messages_details/a.jsonl''"]
  show ?thesis
    unfolding k by (auto simp add: writes_def zeroCounters_def)
qed

lemma thrown_record_rejects:
  "tryBlock config lmt dry k st r = Thrown err st' \<Longrightarrow>
   processStream config lmt dry k st (Yield r # items)
     = Abort (ReferenceError ''msgId'') (count_failed st')"
  by (simp add: processRecord_def catchClause_def)

text \<open>
  C1. The claim is that an error of one record is caught at the record, counted once as
  failed, logged with the file key and the identifier, and that the run goes on with the
  next record. The code does not do so: the \<open>catch\<close> clause throws a ReferenceError of
  its own. In a file of two records whose first has an id and no body, the Extractor
  throws for the first one; the run is rejected, nothing is logged for the record, and the
  second record is never probed.
\<close>

theorem record_error_aborts_run:
  "(case processMessages sampleJson (storeOf [detailsFile [''bare:m1'', ''m2'']]) sampleConfig
           \<lparr>limit = None, dryRun = None\<rparr> of
      Resolved st \<Rightarrow> False
    | Rejected err st \<Rightarrow>
        err = ReferenceError ''msgId''
        \<and> counters st = \<lparr>processed = 1, created = 0, skipped = 0, failed = 1\<rparr>
        \<and> sent (s3 st) =
            [ListObjectsV2Command ''raw/messages_details/'' None,
             GetObjectCommand ''raw/messages_details/a.jsonl'',
             HeadObjectCommand ''raw/raw-files/w/gmail/m1.eml'']
        \<and> console st =
            [LogFound 1 ''raw/messages_details/'', LogReading ''raw/messages_details/a.jsonl''])"
  by code_simp

lemma startsWith_includes: "startsWith s p \<Longrightarrow> includes_str s p"
  by (cases s) (simp_all add: startsWith_def)

lemma includes_str_append: "includes_str (xs @ p @ ys) p"
proof (induction xs)
  case Nil
  show ?case by (rule startsWith_includes) (simp add: startsWith_def)
next
  case (Cons x xs)
  then show ?case by simp
qed

lemma join_mid: "\<exists>pre suf. join sep (xs @ l # ys) = pre @ l @ suf"
proof (induction xs)
  case Nil
  show ?case
  proof (cases ys)
    case Nil
    then show ?thesis by (metis append_Nil append_Nil2 join.simps(2))
  next
    case (Cons y ys')
    then show ?thesis by (metis append_Nil join.simps(3))
  qed
next
  case (Cons x xs)
  then obtain pre suf where j: "join sep (xs @ l # ys) = pre @ l @ suf" by blast
  obtain z zs where z: "xs @ l # ys = z # zs" by (cases "xs @ l # ys") simp_all
  have "join sep ((x # xs) @ l # ys) = (x @ sep @ pre) @ l @ suf"
    using j z by simp
  then show ?case by blast
qed

lemma toEml_has_message_id:
  "includes_str (toEml e) (''Message-ID: <'' @ messageId e @ ''@gmail>'')"
proof -
  let ?opt = "optionalHeader ''From'' (from' e) @ optionalHeader ''To'' (to e)
        @ optionalHeader ''Cc'' (cc e) @ optionalHeader ''Bcc'' (bcc e)
        @ optionalHeader ''Subject'' (subject e) @ optionalHeader ''Date'' (date e)"
  let ?l = "''Message-ID: <'' @ messageId e @ ''@gmail>''"
  let ?rest = "[''MIME-Version: 1.0'',
           ''Content-Type: '' @ bodyMimeString (bodyMime e)
             @ ''; charset='' @ dquote @ ''UTF-8'' @ dquote]"
  obtain pre suf where j: "join CRLF (?opt @ ?l # ?rest) = pre @ ?l @ suf"
    using join_mid by blast
  have "toEml e = join CRLF (?opt @ ?l # ?rest) @ CRLF @ CRLF @ email_body e"
    unfolding toEml_def Let_def
    by (simp add: filterBoolean_headerLine filterBoolean_Some filterBoolean_Nil)
  then have "toEml e = pre @ ?l @ (suf @ CRLF @ CRLF @ email_body e)"
    using j by simp
  then show ?thesis
    by (metis includes_str_append)
qed

section \<open>The two identifiers of a record\<close>

lemma unwrap_envelope:
  "airbyte_data r = Some e \<or> (airbyte_data r = None \<and> msg_data r = Some e) \<Longrightarrow> unwrap r = e"
  by (auto simp add: unwrap_def)

lemma extractEmail_messageId:
  "extractEmail r = Inr email \<Longrightarrow> id' (unwrap r) = Some (messageId email)"
  by (auto simp add: extractEmail_def Let_def truthy_def split: if_splits option.splits)

lemma extractEmail_found:
  "truthy (id' (unwrap r)) \<Longrightarrow> findPart (payload (unwrap r)) True = Some part \<Longrightarrow>
   \<exists>email. extractEmail r = Inr email \<and> email_body email = base64UrlDecode (found_data part)"
  by (simp add: extractEmail_def Let_def)

lemma targetKeyOf_inj: "targetKeyOf config a = targetKeyOf config b \<Longrightarrow> a = b"
  by (simp add: targetKeyOf_def)

lemma processRecord_created:
  assumes "\<not> reached (processed (counters st)) lmt"
    and "recordMsgId r = Some m"
    and "extractEmail r = Inr email"
    and "map_of (objects (s3 st)) (targetKeyOf config m) = None"
    and "faults (s3 st) (HeadObjectCommand (targetKeyOf config m)) = None"
    and "faults (s3 st) (PutObjectCommand (targetKeyOf config m) (toEml email) ''message/rfc822'') = None"
  shows "\<exists>st'. processRecord config lmt False k st r = Continue st'
     \<and> map_of (objects (s3 st')) (targetKeyOf config m) = Some (toEml email)
     \<and> sent (s3 st') = sent (s3 st)
          @ [HeadObjectCommand (targetKeyOf config m),
             PutObjectCommand (targetKeyOf config m) (toEml email) ''message/rfc822'']"
proof -
  let ?t = "targetKeyOf config m"
  let ?put = "PutObjectCommand ?t (toEml email) ''message/rfc822''"
  let ?s' = "record_sent (HeadObjectCommand ?t) (s3 st)"
  let ?s'' = "(record_sent ?put ?s')\<lparr>objects := AList.update ?t (toEml email) (objects ?s')\<rparr>"
  let ?st1 = "say (LogCreated ?t)
     (count_created
        ((say (LogPreview (workspaceId config) (connectorId config) ?t)
            ((count_processed st)\<lparr>s3 := ?s'\<rparr>))\<lparr>s3 := ?s''\<rparr>))"
  have e1: "exists' (s3 st) ?t = (Inr False, ?s')"
    using assms(4,5) by (rule exists'_absent)
  have p1: "sendPutObject ?s' ?t (toEml email) ''message/rfc822'' = (Inr (), ?s'')"
    using assms(6) by (simp add: sendPutObject_ok)
  have r1: "processRecord config lmt False k st r = Continue ?st1"
    using assms(1,2,3) e1 p1 by (simp add: processRecord_def tryBlock_put Let_def)
  have o1: "map_of (objects (s3 ?st1)) ?t = Some (toEml email)"
    by (simp add: map_of_update_same)
  have se: "sent (s3 ?st1) = sent (s3 st) @ [HeadObjectCommand ?t, ?put]"
    by simp
  from r1 o1 se show ?thesis by blast
qed

text \<open>
  C10. For every record that carries a top-level id and, in the envelope the Extractor
  unwraps (\<open>_airbyte_data\<close> when it is present, else \<open>data\<close>), an id with a different
  value (both ids not empty), the Orchestrator derives the target key from the top-level
  id, while the Extractor derives \<open>messageId\<close>, and with it the Message-ID header of the
  serialized message, from the id of the envelope. So when the file is written, the key it
  is stored under names one identifier and the header inside it another.
\<close>

theorem key_and_message_id_disagree:
  assumes "id' r = Some a" and "a \<noteq> []"
    and "airbyte_data r = Some e \<or> (airbyte_data r = None \<and> msg_data r = Some e)"
    and "id' e = Some b" and "b \<noteq> []" and "a \<noteq> b"
  shows "recordMsgId r = Some a
     \<and> targetKeyOf config a \<noteq> targetKeyOf config b
     \<and> (findPart (payload e) True \<noteq> None \<longrightarrow> (\<exists>email. extractEmail r = Inr email))
     \<and> (extractEmail r = Inr email \<longrightarrow>
          messageId email = b
          \<and> includes_str (toEml email) (''Message-ID: <'' @ b @ ''@gmail>'')
          \<and> (\<not> reached (processed (counters st)) lmt
               \<and> map_of (objects (s3 st)) (targetKeyOf config a) = None
               \<and> faults (s3 st) (HeadObjectCommand (targetKeyOf config a)) = None
               \<and> faults (s3 st)
                    (PutObjectCommand (targetKeyOf config a) (toEml email) ''message/rfc822'') = None
               \<longrightarrow> (\<exists>st'. processRecord config lmt False k st r = Continue st'
                      \<and> map_of (objects (s3 st')) (targetKeyOf config a) = Some (toEml email)
                      \<and> sent (s3 st') = sent (s3 st)
                           @ [HeadObjectCommand (targetKeyOf config a),
                              PutObjectCommand (targetKeyOf config a) (toEml email)
                                ''message/rfc822''])))"
proof -
  have u: "unwrap r = e"
    using assms(3) by (rule unwrap_envelope)
  have m: "recordMsgId r = Some a"
    using assms(1,2) by (simp add: recordMsgId_def orElse_def truthy_def)
  have k: "targetKeyOf config a \<noteq> targetKeyOf config b"
    using assms(6) targetKeyOf_inj by blast
  have f: "findPart (payload e) True \<noteq> None \<longrightarrow> (\<exists>email. extractEmail r = Inr email)"
    using extractEmail_found [of r] assms(4,5) u by (auto simp add: truthy_def)
  have x: "extractEmail r = Inr email \<longrightarrow>
          messageId email = b
          \<and> includes_str (toEml email) (''Message-ID: <'' @ b @ ''@gmail>'')
          \<and> (\<not> reached (processed (counters st)) lmt
               \<and> map_of (objects (s3 st)) (targetKeyOf config a) = None
               \<and> faults (s3 st) (HeadObjectCommand (targetKeyOf config a)) = None
               \<and> faults (s3 st)
                    (PutObjectCommand (targetKeyOf config a) (toEml email) ''message/rfc822'') = None
               \<longrightarrow> (\<exists>st'. processRecord config lmt False k st r = Continue st'
                      \<and> map_of (objects (s3 st')) (targetKeyOf config a) = Some (toEml email)
                      \<and> sent (s3 st') = sent (s3 st)
                           @ [HeadObjectCommand (targetKeyOf config a),
                              PutObjectCommand (targetKeyOf config a) (toEml email)
                                ''message/rfc822'']))"
  proof
    assume ex: "extractEmail r = Inr email"
    have i: "messageId email = b"
      using extractEmail_messageId [OF ex] u assms(4) by simp
    have h: "includes_str (toEml email) (''Message-ID: <'' @ b @ ''@gmail>'')"
      using toEml_has_message_id [of email] i by simp
    have w: "\<not> reached (processed (counters st)) lmt
               \<and> map_of (objects (s3 st)) (targetKeyOf config a) = None
               \<and> faults (s3 st) (HeadObjectCommand (targetKeyOf config a)) = None
               \<and> faults (s3 st)
                    (PutObjectCommand (targetKeyOf config a) (toEml email) ''message/rfc822'') = None
               \<longrightarrow> (\<exists>st'. processRecord config lmt False k st r = Continue st'
                      \<and> map_of (objects (s3 st')) (targetKeyOf config a) = Some (toEml email)
                      \<and> sent (s3 st') = sent (s3 st)
                           @ [HeadObjectCommand (targetKeyOf config a),
                              PutObjectCommand (targetKeyOf config a) (toEml email)
                                ''message/rfc822''])"
      using processRecord_created [OF _ m ex, of st lmt config k] by blast
    from i h w show "messageId email = b
          \<and> includes_str (toEml email) (''Message-ID: <'' @ b @ ''@gmail>'')
          \<and> (\<not> reached (processed (counters st)) lmt
               \<and> map_of (objects (s3 st)) (targetKeyOf config a) = None
               \<and> faults (s3 st) (HeadObjectCommand (targetKeyOf config a)) = None
               \<and> faults (s3 st)
                    (PutObjectCommand (targetKeyOf config a) (toEml email) ''message/rfc822'') = None
               \<longrightarrow> (\<exists>st'. processRecord config lmt False k st r = Continue st'
                      \<and> map_of (objects (s3 st')) (targetKeyOf config a) = Some (toEml email)
                      \<and> sent (s3 st') = sent (s3 st)
                           @ [HeadObjectCommand (targetKeyOf config a),
                              PutObjectCommand (targetKeyOf config a) (toEml email)
                                ''message/rfc822'']))"
      by blast
  qed
  from m k f x show ?thesis by blast
qed

theorem key_and_message_id_disagree_witness:
  "recordMsgId wrappedMessage = Some ''top''
   \<and> extractEmail wrappedMessage = Inr (helloEmail ''inner'')
   \<and> messageId (helloEmail ''inner'') = ''inner''
   \<and> includes_str (toEml (helloEmail ''inner'')) ''Message-ID: <inner@gmail>''
   \<and> (\<exists>st'. processRecord sampleConfig PosInfinity False ''raw/messages_details/a.jsonl''
               (startState (storeOf [])) wrappedMessage = Continue st'
          \<and> map_of (objects (s3 st')) ''raw/raw-files/w/gmail/top.eml''
               = Some (toEml (helloEmail ''inner'')))"
proof -
  have ex: "extractEmail wrappedMessage = Inr (helloEmail ''inner'')"
    by code_simp
  have k: "targetKeyOf sampleConfig ''top'' = ''raw/raw-files/w/gmail/top.eml''"
    by (simp add: targetKeyOf_def sampleConfig_def)
  have h1: "id' wrappedMessage = Some ''top''"
    by (simp add: wrappedMessage_def)
  have h3: "airbyte_data wrappedMessage = Some (plainMessage ''inner'' ''aGVsbG8'')
      \<or> (airbyte_data wrappedMessage = None
          \<and> msg_data wrappedMessage = Some (plainMessage ''inner'' ''aGVsbG8''))"
    by (simp add: wrappedMessage_def)
  have h4: "id' (plainMessage ''inner'' ''aGVsbG8'') = Some ''inner''"
    by (simp add: plainMessage_def)
  have n: "\<not> reached (processed (counters (startState (storeOf [])))) PosInfinity"
    by (simp add: reached_def)
  from key_and_message_id_disagree [OF h1 _ h3 h4, of sampleConfig "helloEmail ''inner''"
      "startState (storeOf [])" PosInfinity "''raw/messages_details/a.jsonl''"] ex n
  show ?thesis
    unfolding k by auto
qed

section \<open>The selection of the body part\<close>

lemma truthy_bodyData: "truthy (bodyData p) = hasBodyData p"
  by (simp add: truthy_def bodyData_def hasBodyData_def split: option.splits)

lemma childOfType_iff:
  "t \<noteq> [] \<Longrightarrow> childOfType t p = (hasMediaType t p \<and> hasBodyData p)"
  by (cases "mimeType p")
     (auto simp add: childOfType_def hasMediaType_def orElse_def truthy_bodyData [symmetric]
        truthy_def toLowerCase_def)

lemma findPartLoop_firstResult:
  "findPartLoop ps b = firstResult (map (\<lambda>c. findPart (Some c) b) ps)"
  by (induction ps) (simp_all split: option.splits)

lemma find_cong_pred: "(\<And>x. P x = Q x) \<Longrightarrow> List.find P xs = List.find Q xs"
  by (induction xs) simp_all

lemma findPart_unfold:
  "findPart (Some p) True =
     (if \<not> isMultipart p \<and> hasBodyData p then
        Some \<lparr>mime = (case mimeType p of None \<Rightarrow> ''text/plain''
                       | Some m \<Rightarrow> if m = [] then ''text/plain'' else m),
              found_data = the (bodyData p)\<rparr>
      else
        (case List.find (\<lambda>c. hasMediaType ''text/html'' c \<and> hasBodyData c) (parts p) of
           Some h \<Rightarrow> Some \<lparr>mime = ''text/html'', found_data = the (bodyData h)\<rparr>
         | None \<Rightarrow>
            (case List.find (\<lambda>c. hasMediaType ''text/plain'' c \<and> hasBodyData c) (parts p) of
               Some pl \<Rightarrow> Some \<lparr>mime = ''text/plain'', found_data = the (bodyData pl)\<rparr>
             | None \<Rightarrow> firstResult (map (\<lambda>c. findPart (Some c) True) (parts p)))))"
proof (cases p)
  case (GmailPart mt fn hs b ps)
  have h: "List.find (childOfType ''text/html'') ps
         = List.find (\<lambda>c. hasMediaType ''text/html'' c \<and> hasBodyData c) ps"
    by (rule find_cong_pred) (simp add: childOfType_iff)
  have pl: "List.find (childOfType ''text/plain'') ps
         = List.find (\<lambda>c. hasMediaType ''text/plain'' c \<and> hasBodyData c) ps"
    by (rule find_cong_pred) (simp add: childOfType_iff)
  have m: "the (orElse mt (Some ''text/plain''))
         = (case mt of None \<Rightarrow> ''text/plain'' | Some m \<Rightarrow> if m = [] then ''text/plain'' else m)"
    by (simp add: orElse_def truthy_def split: option.splits)
  show ?thesis
    unfolding GmailPart
    by (simp add: Let_def h pl m truthy_bodyData findPartLoop_firstResult
          split: option.splits)
qed


lemma find_Some_mem: "List.find P xs = Some x \<Longrightarrow> x \<in> set xs \<and> P x"
  by (induction xs) (auto split: if_splits)

lemma find_None_not: "List.find P xs = None \<Longrightarrow> x \<in> set xs \<Longrightarrow> \<not> P x"
  by (induction xs) (auto split: if_splits)

text \<open>
  C5. For every part, the selection of the body part goes in this order. If the media type
  of the part does not start with \<open>multipart/\<close> (compared in lower case, as the source
  does) and the part carries body data, the part itself is returned and its children are
  not considered. Otherwise the first direct child whose media type is exactly
  \<open>text/html\<close>, whatever its case, and that carries body data is returned if there is
  one; else the first such \<open>text/plain\<close> child; else the search goes into the children,
  depth first and left to right, and returns the first result that is not null. In
  particular, when the part is not returned itself, a direct \<open>text/html\<close> child with body
  data is selected whatever \<open>text/plain\<close> siblings stand before or after it.
\<close>

theorem findPart_selection:
  "findPart (Some p) True =
     (if \<not> isMultipart p \<and> hasBodyData p then
        Some \<lparr>mime = (case mimeType p of None \<Rightarrow> ''text/plain''
                       | Some m \<Rightarrow> if m = [] then ''text/plain'' else m),
              found_data = the (bodyData p)\<rparr>
      else
        (case List.find (\<lambda>c. hasMediaType ''text/html'' c \<and> hasBodyData c) (parts p) of
           Some h \<Rightarrow> Some \<lparr>mime = ''text/html'', found_data = the (bodyData h)\<rparr>
         | None \<Rightarrow>
            (case List.find (\<lambda>c. hasMediaType ''text/plain'' c \<and> hasBodyData c) (parts p) of
               Some pl \<Rightarrow> Some \<lparr>mime = ''text/plain'', found_data = the (bodyData pl)\<rparr>
             | None \<Rightarrow> firstResult (map (\<lambda>c. findPart (Some c) True) (parts p)))))
   \<and> (\<not> (\<not> isMultipart p \<and> hasBodyData p) \<longrightarrow> c \<in> set (parts p) \<longrightarrow>
        hasMediaType ''text/html'' c \<longrightarrow> hasBodyData c \<longrightarrow>
        (\<exists>h. h \<in> set (parts p) \<and> hasMediaType ''text/html'' h \<and> hasBodyData h
           \<and> findPart (Some p) True = Some \<lparr>mime = ''text/html'', found_data = the (bodyData h)\<rparr>))"
proof
  show "findPart (Some p) True =
     (if \<not> isMultipart p \<and> hasBodyData p then
        Some \<lparr>mime = (case mimeType p of None \<Rightarrow> ''text/plain''
                       | Some m \<Rightarrow> if m = [] then ''text/plain'' else m),
              found_data = the (bodyData p)\<rparr>
      else
        (case List.find (\<lambda>c. hasMediaType ''text/html'' c \<and> hasBodyData c) (parts p) of
           Some h \<Rightarrow> Some \<lparr>mime = ''text/html'', found_data = the (bodyData h)\<rparr>
         | None \<Rightarrow>
            (case List.find (\<lambda>c. hasMediaType ''text/plain'' c \<and> hasBodyData c) (parts p) of
               Some pl \<Rightarrow> Some \<lparr>mime = ''text/plain'', found_data = the (bodyData pl)\<rparr>
             | None \<Rightarrow> firstResult (map (\<lambda>c. findPart (Some c) True) (parts p)))))"
    by (rule findPart_unfold)
next
  show "\<not> (\<not> isMultipart p \<and> hasBodyData p) \<longrightarrow> c \<in> set (parts p) \<longrightarrow>
        hasMediaType ''text/html'' c \<longrightarrow> hasBodyData c \<longrightarrow>
        (\<exists>h. h \<in> set (parts p) \<and> hasMediaType ''text/html'' h \<and> hasBodyData h
           \<and> findPart (Some p) True = Some \<lparr>mime = ''text/html'', found_data = the (bodyData h)\<rparr>)"
  proof (intro impI)
    assume nl: "\<not> (\<not> isMultipart p \<and> hasBodyData p)"
      and c: "c \<in> set (parts p)" "hasMediaType ''text/html'' c" "hasBodyData c"
    let ?P = "\<lambda>c. hasMediaType ''text/html'' c \<and> hasBodyData c"
    have "List.find ?P (parts p) \<noteq> None"
      using find_None_not [of ?P "parts p" c] c by blast
    then obtain h where h: "List.find ?P (parts p) = Some h"
      by blast
    have "findPart (Some p) True = Some \<lparr>mime = ''text/html'', found_data = the (bodyData h)\<rparr>"
      using nl h by (auto simp add: findPart_unfold)
    then show "\<exists>h. h \<in> set (parts p) \<and> hasMediaType ''text/html'' h \<and> hasBodyData h
           \<and> findPart (Some p) True = Some \<lparr>mime = ''text/html'', found_data = the (bodyData h)\<rparr>"
      using find_Some_mem [OF h] by blast
  qed
qed

theorem findPart_selection_witness:
  "findPart (Some alternativePart) True = Some \<lparr>mime = ''text/html'', found_data = ''aHRtbA''\<rparr>
   \<and> (\<exists>h. h \<in> set (parts alternativePart) \<and> hasMediaType ''text/html'' h \<and> hasBodyData h
         \<and> findPart (Some alternativePart) True
            = Some \<lparr>mime = ''text/html'', found_data = the (bodyData h)\<rparr>)"
proof -
  have m: "\<not> (\<not> isMultipart alternativePart \<and> hasBodyData alternativePart)"
    by code_simp
  have c: "leafPart ''Text/HTML'' ''aHRtbA'' \<in> set (parts alternativePart)"
    by (simp add: alternativePart_def)
  have t: "hasMediaType ''text/html'' (leafPart ''Text/HTML'' ''aHRtbA'')"
    by code_simp
  have b: "hasBodyData (leafPart ''Text/HTML'' ''aHRtbA'')"
    by code_simp
  have v: "findPart (Some alternativePart) True
             = Some \<lparr>mime = ''text/html'', found_data = ''aHRtbA''\<rparr>"
    by code_simp
  from findPart_selection [of alternativePart "leafPart ''Text/HTML'' ''aHRtbA''"] m c t b v
  show ?thesis by blast
qed

section \<open>Decoding the body\<close>













































end
